theory Spec2Isabelle
  imports Complex_Main
begin

chapter \<open>The support chat page\<close>

text \<open>
  A model of \<open>src/pages/Home.tsx\<close>: the conversation store, the send operation around
  the call of the external agent, the handlers of the input controls, and the two effects
  that mirror the store to local storage. State is passed explicitly; the clock, the
  random source, the outcome of the agent call and the built-ins of the platform are
  arguments.
\<close>

section \<open>Strings\<close>

text \<open>
  A JavaScript string is a sequence of code units; \<open>length\<close>, \<open>slice\<close> and \<open>trim\<close>
  count and cut code units. A \<^typ>\<open>char\<close> stands for one code unit (the code units below
  256), so \<open>s.slice(0, n)\<close> is \<^term>\<open>take n s\<close> and \<open>s.length\<close> is \<^term>\<open>length s\<close>.
\<close>

definition is_white_space :: "char \<Rightarrow> bool" where
  \<comment> \<open>The WhiteSpace and LineTerminator code units below 256: TAB, LF, VT, FF, CR, SP, NBSP.\<close>
  "is_white_space c = (c \<in> {CHR 0x09, CHR 0x0A, CHR 0x0B, CHR 0x0C, CHR 0x0D, CHR 0x20, CHR 0xA0})"

definition trim :: "string \<Rightarrow> string" where
  \<comment> \<open>\<open>String.prototype.trim\<close>: white space removed from both ends.\<close>
  "trim s = rev (dropWhile is_white_space (rev (dropWhile is_white_space s)))"

definition truncated :: "nat \<Rightarrow> string \<Rightarrow> string" where
  \<comment> \<open>\<open>s.slice(0, n) + (s.length > n ? '...' : '')\<close>, written twice in
      \<open>addMessageToConversation\<close> (n = 40 for the title, n = 60 for the preview).\<close>
  "truncated n s = take n s @ (if length s > n then ''...'' else '''')"

definition to_lower_char :: "char \<Rightarrow> char" where
  \<comment> \<open>The lower-case mapping of the code units below 256: A to Z, and the letters from
      U+00C0 to U+00DE (U+00D7, the multiplication sign, is no letter).\<close>
  "to_lower_char c =
     (let n = (of_char c :: nat)
      in if (65 \<le> n \<and> n \<le> 90) \<or> (192 \<le> n \<and> n \<le> 222 \<and> n \<noteq> 215)
         then char_of (n + 32) else c)"

definition toLowerCase :: "string \<Rightarrow> string" where
  "toLowerCase s = map to_lower_char s"

fun includes_str :: "string \<Rightarrow> string \<Rightarrow> bool" where
  \<comment> \<open>\<open>s.includes(q)\<close>: \<open>q\<close> occurs in \<open>s\<close> as a substring.\<close>
  "includes_str [] q = (q = [])"
| "includes_str (c # s) q = (take (length q) (c # s) = q \<or> includes_str s q)"

fun digit_char :: "nat \<Rightarrow> char" where
  "digit_char n = char_of (48 + n)"

function string_of_nat :: "nat \<Rightarrow> string" where
  \<comment> \<open>The decimal digits of a number, as a template literal \<open>${n}\<close> prints it.\<close>
  "string_of_nat n =
     (if n < 10 then [digit_char n] else string_of_nat (n div 10) @ [digit_char (n mod 10)])"
  by pat_completeness auto
termination
  by (relation "measure (\<lambda>n. n)") auto

declare string_of_nat.simps [simp del]

section \<open>Data model\<close>

text \<open>
  \<open>Date\<close>: a time value in milliseconds since the epoch, or the Invalid Date that
  \<open>new Date\<close> returns for an argument it cannot read.
\<close>

datatype jsdate = Date int | InvalidDate

text \<open>
  \<open>number\<close>: a finite value (\<open>Finite 0\<close> is \<open>+0\<close>), negative zero, \<open>NaN\<close>, or one of the two
  infinities.
\<close>

datatype jsnumber = Finite rat | NegZero | NaN | PosInfinity | NegInfinity

text \<open>
  \<open>any\<close>: the untyped values, which are the entries of \<open>sources\<close> and what \<open>JSON.parse\<close>
  returns. \<open>JSON.parse\<close> returns no undefined, no \<open>Date\<close>, no function, and no number
  that is not finite. A hole of a sparse array reads as undefined and is modelled as
  undefined. Values that \<open>JSON.stringify\<close> does not serialize (a BigInt, a cyclic object)
  and objects with a serialization of their own (a \<open>toJSON\<close> method other than that of
  \<open>Date\<close>) are left out.
\<close>

datatype jsval =
    JUndefined
  | JNull
  | JBool bool
  | JNum jsnumber
  | JStr string
  | JDate jsdate
  | JFunction
  | JArr "jsval list"
  | JObj "(string \<times> jsval) list"

datatype role = Agent | User

text \<open>\<open>interface Message\<close>; an optional field that is undefined is \<^term>\<open>None\<close>.\<close>

record message =
  msg_id :: string
  role :: role
  content :: string
  msg_timestamp :: jsdate
  confidence :: "jsnumber option"
  sources :: "jsval list option"
  suggested_followup :: "string list option"

text \<open>\<open>interface Conversation\<close>.\<close>

record conversation =
  conv_id :: string
  title :: string
  preview :: string
  conv_timestamp :: jsdate
  messages :: "message list"

text \<open>\<open>interface SupportResult\<close> and \<open>interface SupportResponse\<close> (its optional metadata is
  never read).\<close>

record support_result =
  answer :: string
  res_sources :: "jsval list"
  res_confidence :: jsnumber
  res_suggested_followup :: "string list"

datatype status = StatusSuccess | StatusError

record support_response =
  resp_status :: status
  resp_result :: support_result

text \<open>
  What \<open>callAIAgent\<close> resolves with, as \<open>handleSendMessage\<close> reads it: \<open>result.success\<close>,
  \<open>result.response\<close> and \<open>result.error\<close>. A response has the type that the cast
  \<open>result.response as unknown as SupportResponse\<close> gives it.
\<close>

record agent_result =
  success :: bool
  response :: "support_response option"
  error :: "string option"

text \<open>The component's state (\<open>useState\<close>).\<close>

record state =
  conversations :: "conversation list"
  activeConversationId :: string
  inputValue :: string
  isTyping :: bool
  isSidebarOpen :: bool
  searchQuery :: string
  showFeatureRequest :: bool
  featureRequestText :: string

definition initial_state :: state where
  "initial_state =
     \<lparr>conversations = [], activeConversationId = '''', inputValue = '''', isTyping = False,
      isSidebarOpen = True, searchQuery = '''', showFeatureRequest = False,
      featureRequestText = ''''\<rparr>"

definition AGENT_ID :: string where
  "AGENT_ID = ''696608c9c831c63e265e1355''"

definition QUICK_REPLIES :: "string list" where
  "QUICK_REPLIES = [''Pricing'', ''How to get started'', ''Return policy'', ''Contact sales'']"

section \<open>Conversation store\<close>

text \<open>
  \<open>createNewConversation\<close>. \<open>Date.now()\<close> is the argument \<open>now\<close> (milliseconds since the
  epoch; the readings of the clock within one call are taken to be equal, and \<open>new Date()\<close>
  is \<open>Date now\<close>), and \<open>Math.random().toString(36).substr(2, 9)\<close> is the argument \<open>rnd\<close>.
\<close>

definition welcomeMessage :: "nat \<Rightarrow> message" where
  "welcomeMessage now =
     \<lparr>msg_id = ''msg-'' @ string_of_nat now,
      role = Agent,
      content = ''Hi! I'm here to help. Ask me anything about our products and services.'',
      msg_timestamp = Date (int now),
      confidence = None, sources = None, suggested_followup = None\<rparr>"

definition createNewConversation :: "nat \<Rightarrow> string \<Rightarrow> conversation" where
  "createNewConversation now rnd =
     \<lparr>conv_id = ''conv-'' @ string_of_nat now @ ''-'' @ rnd,
      title = ''New Conversation'',
      preview = ''Hi! I'm here to help...'',
      conv_timestamp = Date (int now),
      messages = [welcomeMessage now]\<rparr>"

text \<open>
  \<open>addMessageToConversation\<close>: the function mapped over the previous list, and the
  state update. \<open>new Date()\<close> is \<open>Date now\<close>.
\<close>

definition with_message :: "nat \<Rightarrow> message \<Rightarrow> conversation \<Rightarrow> conversation" where
  "with_message now m conv =
     (let updatedMessages = messages conv @ [m];
          title' = (if role m = User \<and> title conv = ''New Conversation''
                    then truncated 40 (content m) else title conv);
          preview' = truncated 60 (content m)
      in conv\<lparr>messages := updatedMessages, title := title', preview := preview',
              conv_timestamp := Date (int now)\<rparr>)"

definition addMessageToConversation ::
  "nat \<Rightarrow> string \<Rightarrow> message \<Rightarrow> conversation list \<Rightarrow> conversation list" where
  "addMessageToConversation now conversationId m prev =
     map (\<lambda>conv. if conv_id conv = conversationId then with_message now m conv else conv) prev"

section \<open>Agent request cycle\<close>

text \<open>
  \<open>handleSendMessage\<close> is an async function: it runs up to \<open>await callAIAgent(...)\<close>, and
  its continuation runs when the call settles, in whatever state the component has by then.
  The continuation still holds the \<open>textToSend\<close> and the \<open>activeConversationId\<close> of the
  render that started it; they are kept in the record of the call.
\<close>

record agent_call =
  call_message :: string
  call_agent_id :: string
  call_conversation :: string

text \<open>How the call settles: it resolves with a result, or it rejects (throws).\<close>

datatype call_outcome = Resolved agent_result | Rejected

definition userMessage :: "nat \<Rightarrow> string \<Rightarrow> message" where
  "userMessage now textToSend =
     \<lparr>msg_id = ''msg-'' @ string_of_nat now @ ''-user'', role = User, content = textToSend,
      msg_timestamp = Date (int now),
      confidence = None, sources = None, suggested_followup = None\<rparr>"

definition agentMessage :: "nat \<Rightarrow> support_response \<Rightarrow> message" where
  "agentMessage now resp =
     \<lparr>msg_id = ''msg-'' @ string_of_nat now @ ''-agent'', role = Agent,
      content = answer (resp_result resp),
      msg_timestamp = Date (int now),
      confidence = Some (res_confidence (resp_result resp)),
      sources = Some (res_sources (resp_result resp)),
      suggested_followup = Some (res_suggested_followup (resp_result resp))\<rparr>"

definition errorMessage :: "nat \<Rightarrow> string \<Rightarrow> message" where
  "errorMessage now c =
     \<lparr>msg_id = ''msg-'' @ string_of_nat now @ ''-agent'', role = Agent, content = c,
      msg_timestamp = Date (int now),
      confidence = None, sources = None, suggested_followup = None\<rparr>"

definition error_or_generic :: "string option \<Rightarrow> string" where
  \<comment> \<open>\<open>result.error || 'Sorry, I encountered an error. Please try again.'\<close>: an undefined
      or empty error string is falsy.\<close>
  "error_or_generic e =
     (case e of
        None \<Rightarrow> ''Sorry, I encountered an error. Please try again.''
      | Some t \<Rightarrow> if t \<noteq> '''' then t else ''Sorry, I encountered an error. Please try again.'')"

definition textToSend :: "string option \<Rightarrow> state \<Rightarrow> string" where
  \<comment> \<open>\<open>messageText || inputValue.trim()\<close>: an absent or empty argument is falsy.\<close>
  "textToSend messageText s =
     (case messageText of
        None \<Rightarrow> trim (inputValue s)
      | Some t \<Rightarrow> if t \<noteq> '''' then t else trim (inputValue s))"

definition handleSendMessage_start ::
  "nat \<Rightarrow> string option \<Rightarrow> state \<Rightarrow> state \<times> agent_call option" where
  \<comment> \<open>Up to the await. The second component is the call to \<open>callAIAgent\<close>, when one
      is made; the guard \<open>if (!textToSend || !activeConversationId) return\<close> makes none.\<close>
  "handleSendMessage_start now messageText s =
     (if textToSend messageText s = '''' \<or> activeConversationId s = '''' then (s, None)
      else
        (s\<lparr>conversations :=
              addMessageToConversation now (activeConversationId s)
                (userMessage now (textToSend messageText s)) (conversations s),
            inputValue := '''',
            isTyping := True\<rparr>,
         Some \<lparr>call_message = textToSend messageText s, call_agent_id = AGENT_ID,
               call_conversation = activeConversationId s\<rparr>))"

definition handleSendMessage_finish ::
  "nat \<Rightarrow> agent_call \<Rightarrow> call_outcome \<Rightarrow> state \<Rightarrow> state \<times> string list" where
  \<comment> \<open>From the await on: the try branch, the catch branch, and the finally block. The
      second component is what was written to \<open>console.error\<close>.\<close>
  "handleSendMessage_finish now call outcome s =
     (let cid = call_conversation call;
          (m, logged) =
            (case outcome of
               Resolved result \<Rightarrow>
                 (case (success result, response result) of
                    (True, Some resp) \<Rightarrow> (agentMessage now resp, [])
                  | _ \<Rightarrow> (errorMessage now (error_or_generic (error result)), []))
             | Rejected \<Rightarrow>
                 (errorMessage now ''Sorry, something went wrong. Please try again.'',
                  [''Failed to send message:'']))
      in (s\<lparr>conversations := addMessageToConversation now cid m (conversations s),
            isTyping := False\<rparr>,
          logged))"

section \<open>Event handlers and the rendered controls\<close>

definition handleKeyDown :: "nat \<Rightarrow> string \<Rightarrow> bool \<Rightarrow> state \<Rightarrow> state \<times> agent_call option" where
  "handleKeyDown now key shiftKey s =
     (if key = ''Enter'' \<and> \<not> shiftKey then handleSendMessage_start now None s else (s, None))"

definition handleInputChange :: "string \<Rightarrow> state \<Rightarrow> state" where
  \<comment> \<open>The textarea's \<open>onChange\<close>.\<close>
  "handleInputChange v s = (if length v \<le> 500 then s\<lparr>inputValue := v\<rparr> else s)"

definition handleSuggestedQuestion :: "string \<Rightarrow> state \<Rightarrow> state" where
  \<comment> \<open>The listener of the window event \<open>send-suggested-question\<close>; \<open>detail\<close> is the
      event's \<open>e.detail\<close>.\<close>
  "handleSuggestedQuestion detail s = s\<lparr>inputValue := detail\<rparr>"

definition handleNewConversation :: "nat \<Rightarrow> string \<Rightarrow> state \<Rightarrow> state" where
  "handleNewConversation now rnd s =
     (let newConv = createNewConversation now rnd
      in s\<lparr>conversations := newConv # conversations s,
            activeConversationId := conv_id newConv\<rparr>)"

definition handleFeatureRequest :: "state \<Rightarrow> state \<times> string list" where
  "handleFeatureRequest s =
     (if trim (featureRequestText s) = '''' then (s, [])
      else (s\<lparr>featureRequestText := '''', showFeatureRequest := False\<rparr>,
            [''Feature request submitted:'']))"

definition activeConversation :: "state \<Rightarrow> conversation option" where
  \<comment> \<open>\<open>conversations.find(c => c.id === activeConversationId)\<close>\<close>
  "activeConversation s = find (\<lambda>c. conv_id c = activeConversationId s) (conversations s)"

definition filteredConversations :: "state \<Rightarrow> conversation list" where
  \<comment> \<open>The conversations the sidebar lists.\<close>
  "filteredConversations s =
     filter (\<lambda>conv. includes_str (toLowerCase (title conv)) (toLowerCase (searchQuery s))
                   \<or> includes_str (toLowerCase (preview conv)) (toLowerCase (searchQuery s)))
       (conversations s)"

definition send_disabled :: "state \<Rightarrow> bool" where
  \<comment> \<open>The send button's \<open>disabled={!inputValue.trim() || isTyping}\<close>.\<close>
  "send_disabled s = (trim (inputValue s) = '''' \<or> isTyping s)"

definition quick_replies_shown :: "state \<Rightarrow> bool" where
  \<comment> \<open>\<open>activeConversation?.messages.length === 1 && !isTyping\<close>\<close>
  "quick_replies_shown s =
     (case activeConversation s of
        None \<Rightarrow> False
      | Some c \<Rightarrow> length (messages c) = 1 \<and> \<not> isTyping s)"

section \<open>Persistence\<close>

text \<open>
  The built-ins the two storage effects call. They are not code of this repository, so
  they are parameters of the model: \<open>JSON.parse\<close> (\<^term>\<open>None\<close> when it throws a
  SyntaxError), the text \<open>JSON.stringify\<close> writes for a value in its JSON form,
  \<open>Date.prototype.toISOString\<close> on a time value, the date that \<open>new Date\<close> reads from a
  string, and the string an array or object converts to when \<open>new Date\<close> is given one.
\<close>

record platform =
  json_parse :: "string \<Rightarrow> jsval option"
  json_stringify :: "jsval \<Rightarrow> string"
  toISOString :: "int \<Rightarrow> string"
  date_parse :: "string \<Rightarrow> jsdate"
  to_primitive :: "jsval \<Rightarrow> string"

subsection \<open>Saving\<close>

text \<open>
  \<open>JSON.stringify\<close> first brings a value into its JSON form and then writes the text of
  that form. In the JSON form a \<open>Date\<close> is replaced by the result of its \<open>toJSON\<close> (the ISO
  string of a valid date, \<open>null\<close> for an Invalid Date), a number that is not finite by
  \<open>null\<close>, and negative zero by \<open>0\<close>; undefined and a function are replaced by \<open>null\<close> as
  elements of an array, and a property that holds one of them is left out.
\<close>

definition toJSON_date :: "platform \<Rightarrow> jsdate \<Rightarrow> jsval" where
  "toJSON_date P d = (case d of Date t \<Rightarrow> JStr (toISOString P t) | InvalidDate \<Rightarrow> JNull)"

definition json_number :: "jsnumber \<Rightarrow> jsval" where
  "json_number n =
     (case n of Finite r \<Rightarrow> JNum (Finite r) | NegZero \<Rightarrow> JNum (Finite 0) | _ \<Rightarrow> JNull)"

fun omitted :: "jsval \<Rightarrow> bool" where
  "omitted JUndefined = True"
| "omitted JFunction = True"
| "omitted _ = False"

fun to_json :: "platform \<Rightarrow> jsval \<Rightarrow> jsval" where
  \<comment> \<open>The JSON form of a value that is neither undefined nor a function (for those
      two, \<open>JSON.stringify\<close> returns undefined and writes no text).\<close>
  "to_json P (JNum n) = json_number n"
| "to_json P (JDate d) = toJSON_date P d"
| "to_json P (JArr xs) = JArr (map (\<lambda>x. if omitted x then JNull else to_json P x) xs)"
| "to_json P (JObj kvs) =
     JObj (map (\<lambda>kv. (fst kv, to_json P (snd kv))) (filter (\<lambda>kv. \<not> omitted (snd kv)) kvs))"
| "to_json P v = v"

definition role_name :: "role \<Rightarrow> string" where
  "role_name r = (case r of Agent \<Rightarrow> ''agent'' | User \<Rightarrow> ''user'')"

text \<open>
  The in-memory objects as untyped values. An optional field that is \<^term>\<open>None\<close> is a
  property that is absent or undefined; \<open>JSON.stringify\<close> leaves out both.
\<close>

definition value_of_message :: "message \<Rightarrow> jsval" where
  "value_of_message m =
     JObj ([(''id'', JStr (msg_id m)),
            (''role'', JStr (role_name (role m))),
            (''content'', JStr (content m)),
            (''timestamp'', JDate (msg_timestamp m))]
           @ (case confidence m of None \<Rightarrow> [] | Some c \<Rightarrow> [(''confidence'', JNum c)])
           @ (case sources m of None \<Rightarrow> [] | Some xs \<Rightarrow> [(''sources'', JArr xs)])
           @ (case suggested_followup m of
                None \<Rightarrow> []
              | Some qs \<Rightarrow> [(''suggested_followup'', JArr (map JStr qs))]))"

definition value_of_conversation :: "conversation \<Rightarrow> jsval" where
  "value_of_conversation c =
     JObj [(''id'', JStr (conv_id c)),
           (''title'', JStr (title c)),
           (''preview'', JStr (preview c)),
           (''timestamp'', JDate (conv_timestamp c)),
           (''messages'', JArr (map value_of_message (messages c)))]"

definition stringify_conversations :: "platform \<Rightarrow> conversation list \<Rightarrow> string" where
  \<comment> \<open>\<open>JSON.stringify(conversations)\<close>\<close>
  "stringify_conversations P convs =
     json_stringify P (to_json P (JArr (map value_of_conversation convs)))"

definition save_effect :: "platform \<Rightarrow> state \<Rightarrow> string option \<Rightarrow> string option" where
  \<comment> \<open>The effect on \<open>[conversations]\<close>; the third argument and the result are the value
      of the local-storage key \<open>support-conversations\<close> (\<^term>\<open>None\<close>: no such key).\<close>
  "save_effect P s stored =
     (if length (conversations s) > 0 then Some (stringify_conversations P (conversations s))
      else stored)"

subsection \<open>Loading\<close>

text \<open>
  The load effect works on untyped values. \<open>SyntaxError\<close> and \<open>TypeError\<close> are the
  exceptions it can raise. \<open>NotTyped\<close> is not an exception: it marks stored data that
  JavaScript would put into the state although it is no \<open>Conversation[]\<close> (a title that is
  a number, a message without a role); the typed state of this model cannot hold it.
\<close>

datatype load_error = SyntaxError | TypeError | NotTyped

definition time_clip :: "jsnumber \<Rightarrow> jsdate" where
  "time_clip n =
     (case n of
        Finite r \<Rightarrow>
          if \<bar>r\<bar> \<le> 8640000000000000 then Date (if r < 0 then - \<lfloor>- r\<rfloor> else \<lfloor>r\<rfloor>)
          else InvalidDate
      | NegZero \<Rightarrow> Date 0
      | _ \<Rightarrow> InvalidDate)"

definition newDate :: "platform \<Rightarrow> jsval option \<Rightarrow> jsdate" where
  \<comment> \<open>\<open>new Date(v)\<close>; \<^term>\<open>None\<close> is undefined, the value of a missing property.\<close>
  "newDate P v =
     (case v of
        None \<Rightarrow> InvalidDate
      | Some JUndefined \<Rightarrow> InvalidDate
      | Some JNull \<Rightarrow> Date 0
      | Some (JBool b) \<Rightarrow> Date (if b then 1 else 0)
      | Some (JNum n) \<Rightarrow> time_clip n
      | Some (JStr str) \<Rightarrow> date_parse P str
      | Some (JDate d) \<Rightarrow> d
      | Some w \<Rightarrow> date_parse P (to_primitive P w))"

definition role_of_name :: "string \<Rightarrow> role option" where
  "role_of_name r = (if r = ''agent'' then Some Agent else if r = ''user'' then Some User else None)"

fun strings_of :: "jsval list \<Rightarrow> string list option" where
  "strings_of [] = Some []"
| "strings_of (JStr s # js) = (case strings_of js of None \<Rightarrow> None | Some ss \<Rightarrow> Some (s # ss))"
| "strings_of (_ # js) = None"

definition optional_number :: "jsval option \<Rightarrow> jsnumber option option" where
  "optional_number v =
     (case v of
        None \<Rightarrow> Some None
      | Some JUndefined \<Rightarrow> Some None
      | Some (JNum n) \<Rightarrow> Some (Some n)
      | Some _ \<Rightarrow> None)"

definition optional_array :: "jsval option \<Rightarrow> jsval list option option" where
  "optional_array v =
     (case v of
        None \<Rightarrow> Some None
      | Some JUndefined \<Rightarrow> Some None
      | Some (JArr xs) \<Rightarrow> Some (Some xs)
      | Some _ \<Rightarrow> None)"

definition optional_strings :: "jsval option \<Rightarrow> string list option option" where
  "optional_strings v =
     (case v of
        None \<Rightarrow> Some None
      | Some JUndefined \<Rightarrow> Some None
      | Some (JArr xs) \<Rightarrow> (case strings_of xs of None \<Rightarrow> None | Some ss \<Rightarrow> Some (Some ss))
      | Some _ \<Rightarrow> None)"

definition revive_message :: "platform \<Rightarrow> jsval \<Rightarrow> load_error + message" where
  \<comment> \<open>\<open>(msg) => ({...msg, timestamp: new Date(msg.timestamp)})\<close>: reading
      \<open>msg.timestamp\<close> of \<open>null\<close> or undefined throws; the spread keeps every other
      property.\<close>
  "revive_message P msg =
     (case msg of
        JNull \<Rightarrow> Inl TypeError
      | JUndefined \<Rightarrow> Inl TypeError
      | JObj kvs \<Rightarrow>
          (case (map_of kvs ''id'', map_of kvs ''role'', map_of kvs ''content'') of
             (Some (JStr i), Some (JStr r), Some (JStr c)) \<Rightarrow>
               (case (role_of_name r, optional_number (map_of kvs ''confidence''),
                      optional_array (map_of kvs ''sources''),
                      optional_strings (map_of kvs ''suggested_followup'')) of
                  (Some ro, Some cf, Some so, Some fu) \<Rightarrow>
                    Inr \<lparr>msg_id = i, role = ro, content = c,
                         msg_timestamp = newDate P (map_of kvs ''timestamp''),
                         confidence = cf, sources = so, suggested_followup = fu\<rparr>
                | _ \<Rightarrow> Inl NotTyped)
           | _ \<Rightarrow> Inl NotTyped)
      | _ \<Rightarrow> Inl NotTyped)"

definition collect :: "(load_error + 'a) list \<Rightarrow> load_error + 'a list" where
  \<comment> \<open>The results of \<open>Array.prototype.map\<close>: an exception in any element is the
      exception of the whole.\<close>
  "collect rs =
     (if list_ex (\<lambda>r. case r of Inl e \<Rightarrow> e = TypeError | Inr _ \<Rightarrow> False) rs then Inl TypeError
      else if list_ex isl rs then Inl NotTyped
      else Inr (map projr rs))"

definition revive_conversation :: "platform \<Rightarrow> jsval \<Rightarrow> load_error + conversation" where
  \<comment> \<open>\<open>(conv) => ({...conv, timestamp: new Date(conv.timestamp),
      messages: conv.messages.map(...)})\<close>: \<open>conv.messages.map\<close> throws unless
      \<open>conv.messages\<close> is an array.\<close>
  "revive_conversation P conv =
     (case conv of
        JObj kvs \<Rightarrow>
          (case map_of kvs ''messages'' of
             Some (JArr ms) \<Rightarrow>
               (case collect (map (revive_message P) ms) of
                  Inl e \<Rightarrow> Inl e
                | Inr msgs \<Rightarrow>
                    (case (map_of kvs ''id'', map_of kvs ''title'', map_of kvs ''preview'') of
                       (Some (JStr i), Some (JStr t), Some (JStr p)) \<Rightarrow>
                         Inr \<lparr>conv_id = i, title = t, preview = p,
                              conv_timestamp = newDate P (map_of kvs ''timestamp''),
                              messages = msgs\<rparr>
                     | _ \<Rightarrow> Inl NotTyped))
           | _ \<Rightarrow> Inl TypeError)
      | _ \<Rightarrow> Inl TypeError)"

definition parse_and_revive :: "platform \<Rightarrow> string \<Rightarrow> load_error + conversation list" where
  \<comment> \<open>The first two statements of the try block: \<open>JSON.parse(stored)\<close> and
      \<open>parsed.map(...)\<close>, which throws unless \<open>parsed\<close> is an array.\<close>
  "parse_and_revive P stored =
     (case json_parse P stored of
        None \<Rightarrow> Inl SyntaxError
      | Some (JArr cs) \<Rightarrow> collect (map (revive_conversation P) cs)
      | Some _ \<Rightarrow> Inl TypeError)"

definition length_is_zero :: "jsval \<Rightarrow> load_error + bool" where
  \<comment> \<open>\<open>v.length === 0\<close>\<close>
  "length_is_zero v =
     (case v of
        JNull \<Rightarrow> Inl TypeError
      | JUndefined \<Rightarrow> Inl TypeError
      | JArr xs \<Rightarrow> Inr (xs = [])
      | JStr s \<Rightarrow> Inr (s = '''')
      | JObj kvs \<Rightarrow>
          Inr (map_of kvs ''length'' = Some (JNum (Finite 0))
               \<or> map_of kvs ''length'' = Some (JNum NegZero))
      | _ \<Rightarrow> Inr False)"

datatype load_outcome = Completed | Uncaught load_error | OutsideModel

definition create_initial :: "nat \<Rightarrow> string \<Rightarrow> state \<Rightarrow> state" where
  "create_initial now rnd s =
     (let initialConv = createNewConversation now rnd
      in s\<lparr>conversations := [initialConv], activeConversationId := conv_id initialConv\<rparr>)"

definition after_try ::
  "platform \<Rightarrow> nat \<Rightarrow> string \<Rightarrow> string \<Rightarrow> state \<Rightarrow> string list
     \<Rightarrow> load_outcome \<times> state \<times> string list" where
  \<comment> \<open>\<open>if (!stored || JSON.parse(stored).length === 0)\<close> for a truthy \<open>stored\<close>: the
      second \<open>JSON.parse\<close> stands outside the try block.\<close>
  "after_try P now rnd stored s logged =
     (case json_parse P stored of
        None \<Rightarrow> (Uncaught SyntaxError, s, logged)
      | Some v \<Rightarrow>
          (case length_is_zero v of
             Inl e \<Rightarrow> (Uncaught e, s, logged)
           | Inr True \<Rightarrow> (Completed, create_initial now rnd s, logged)
           | Inr False \<Rightarrow> (Completed, s, logged)))"

definition load_effect ::
  "platform \<Rightarrow> nat \<Rightarrow> string \<Rightarrow> string option \<Rightarrow> state
     \<Rightarrow> load_outcome \<times> state \<times> string list" where
  \<comment> \<open>The effect that runs on mount. The fourth argument is
      \<open>localStorage.getItem('support-conversations')\<close>; \<open>null\<close> and the empty string are
      falsy. The result holds how the effect ended, the state, and the lines written to
      \<open>console.error\<close>.\<close>
  "load_effect P now rnd item s =
     (case item of
        None \<Rightarrow> (Completed, create_initial now rnd s, [])
      | Some stored \<Rightarrow>
          if stored = '''' then (Completed, create_initial now rnd s, [])
          else
            (case parse_and_revive P stored of
               Inr conversationsWithDates \<Rightarrow>
                 after_try P now rnd stored
                   (case conversationsWithDates of
                      [] \<Rightarrow> s\<lparr>conversations := conversationsWithDates\<rparr>
                    | c # _ \<Rightarrow> s\<lparr>conversations := conversationsWithDates,
                                 activeConversationId := conv_id c\<rparr>)
                   []
             | Inl NotTyped \<Rightarrow> (OutsideModel, s, [])
             | Inl e \<Rightarrow> after_try P now rnd stored s [''Failed to parse stored conversations:'']))"

section \<open>The running page\<close>

text \<open>
  The page after mount: the state, the agent calls that have been started and have not
  settled yet (oldest first), and the console. An event is a user action on a rendered
  control, a window event, or the settling of a call. A click reaches its handler only
  when the control is rendered and enabled: the send button unless it is disabled, a
  quick reply while the quick replies are shown, a conversation item when the sidebar
  lists the conversation, the controls of the feature-request dialog while it is open.
  The textarea is always enabled. The window event \<open>send-suggested-question\<close> carries
  the text of a follow-up question (the follow-up chips of a message bubble dispatch it
  with the question clicked). Each step reads the clock (\<open>now\<close>) and the random source
  (\<open>rnd\<close>).
\<close>

record app =
  ui :: state
  in_flight :: "agent_call list"
  console :: "string list"

datatype event =
    InputChange string
  | KeyDown string bool
  | ClickSend
  | ClickQuickReply string
  | SuggestedQuestion string
  | ClickNewChat
  | ClickConversation string
  | SearchChange string
  | ToggleSidebar
  | OpenFeatureRequest
  | CloseFeatureRequest
  | FeatureRequestChange string
  | SubmitFeatureRequest
  | CallSettles nat call_outcome

definition launch :: "state \<times> agent_call option \<Rightarrow> app \<Rightarrow> app" where
  "launch r a =
     a\<lparr>ui := fst r,
       in_flight := in_flight a @ (case snd r of None \<Rightarrow> [] | Some c \<Rightarrow> [c])\<rparr>"

definition step :: "nat \<Rightarrow> string \<Rightarrow> event \<Rightarrow> app \<Rightarrow> app" where
  "step now rnd ev a =
     (let s = ui a in
      case ev of
        InputChange v \<Rightarrow> a\<lparr>ui := handleInputChange v s\<rparr>
      | KeyDown key shiftKey \<Rightarrow> launch (handleKeyDown now key shiftKey s) a
      | ClickSend \<Rightarrow>
          if send_disabled s then a else launch (handleSendMessage_start now None s) a
      | ClickQuickReply reply \<Rightarrow>
          if quick_replies_shown s \<and> reply \<in> set QUICK_REPLIES
          then launch (handleSendMessage_start now (Some reply) s) a else a
      | SuggestedQuestion detail \<Rightarrow> a\<lparr>ui := handleSuggestedQuestion detail s\<rparr>
      | ClickNewChat \<Rightarrow> a\<lparr>ui := handleNewConversation now rnd s\<rparr>
      | ClickConversation cid \<Rightarrow>
          if cid \<in> set (map conv_id (filteredConversations s))
          then a\<lparr>ui := s\<lparr>activeConversationId := cid\<rparr>\<rparr> else a
      | SearchChange q \<Rightarrow> a\<lparr>ui := s\<lparr>searchQuery := q\<rparr>\<rparr>
      | ToggleSidebar \<Rightarrow> a\<lparr>ui := s\<lparr>isSidebarOpen := \<not> isSidebarOpen s\<rparr>\<rparr>
      | OpenFeatureRequest \<Rightarrow> a\<lparr>ui := s\<lparr>showFeatureRequest := True\<rparr>\<rparr>
      | CloseFeatureRequest \<Rightarrow>
          if showFeatureRequest s then a\<lparr>ui := s\<lparr>showFeatureRequest := False\<rparr>\<rparr> else a
      | FeatureRequestChange v \<Rightarrow>
          if showFeatureRequest s then a\<lparr>ui := s\<lparr>featureRequestText := v\<rparr>\<rparr> else a
      | SubmitFeatureRequest \<Rightarrow>
          if showFeatureRequest s \<and> trim (featureRequestText s) \<noteq> ''''
          then a\<lparr>ui := fst (handleFeatureRequest s),
                 console := console a @ snd (handleFeatureRequest s)\<rparr>
          else a
      | CallSettles i outcome \<Rightarrow>
          if i < length (in_flight a)
          then a\<lparr>ui := fst (handleSendMessage_finish now (in_flight a ! i) outcome s),
                 in_flight := take i (in_flight a) @ drop (Suc i) (in_flight a),
                 console := console a @ snd (handleSendMessage_finish now (in_flight a ! i) outcome s)\<rparr>
          else a)"

fun run :: "(nat \<times> string \<times> event) list \<Rightarrow> app \<Rightarrow> app" where
  "run [] a = a"
| "run ((now, rnd, ev) # evs) a = run evs (step now rnd ev a)"

definition first_visit :: "nat \<Rightarrow> string \<Rightarrow> app" where
  \<comment> \<open>The page after the load effect found nothing stored.\<close>
  "first_visit now rnd =
     \<lparr>ui = create_initial now rnd initial_state, in_flight = [], console = []\<rparr>"

section \<open>Notions used in the statements\<close>

definition reads_back :: "platform \<Rightarrow> jsdate \<Rightarrow> bool" where
  \<comment> \<open>A valid date whose ISO string \<open>new Date\<close> reads as the same time value.\<close>
  "reads_back P d =
     (case d of Date t \<Rightarrow> date_parse P (toISOString P t) = Date t | InvalidDate \<Rightarrow> False)"

definition preview_ok :: "conversation \<Rightarrow> bool" where
  \<comment> \<open>The preview is the truncated content of the last message, or the conversation
      holds only the welcome message and has the fixed preview of a new conversation.\<close>
  "preview_ok c =
     ((messages c \<noteq> [] \<and> preview c = truncated 60 (content (last (messages c))))
      \<or> (length (messages c) = 1 \<and> role (hd (messages c)) = Agent
          \<and> content (hd (messages c)) =
                ''Hi! I'm here to help. Ask me anything about our products and services.''
          \<and> preview c = ''Hi! I'm here to help...''))"

definition stored_conversations :: "platform \<Rightarrow> string option \<Rightarrow> conversation list" where
  \<comment> \<open>The conversations the load effect reads from the stored item, if it reads any.\<close>
  "stored_conversations P item =
     (case item of
        None \<Rightarrow> []
      | Some stored \<Rightarrow> (case parse_and_revive P stored of Inr convs \<Rightarrow> convs | Inl _ \<Rightarrow> []))"

definition finite_number :: "jsnumber \<Rightarrow> bool" where
  \<comment> \<open>A finite number other than negative zero.\<close>
  "finite_number n = (case n of Finite _ \<Rightarrow> True | _ \<Rightarrow> False)"

fun is_json_form :: "jsval \<Rightarrow> bool" where
  \<comment> \<open>A value that is its own JSON form: \<open>null\<close>, a boolean, a finite number other than
      negative zero, a string, or an array or object of such values.\<close>
  "is_json_form JNull = True"
| "is_json_form (JBool b) = True"
| "is_json_form (JNum n) = finite_number n"
| "is_json_form (JStr str) = True"
| "is_json_form (JArr xs) = list_all is_json_form xs"
| "is_json_form (JObj kvs) = list_all (\<lambda>kv. is_json_form (snd kv)) kvs"
| "is_json_form _ = False"

definition message_storable :: "platform \<Rightarrow> message \<Rightarrow> bool" where
  \<comment> \<open>The timestamp is a valid date, the confidence (if any) a finite number other than
      negative zero, and the sources (if any) are JSON values.\<close>
  "message_storable P m =
     (reads_back P (msg_timestamp m)
      \<and> (case confidence m of None \<Rightarrow> True | Some n \<Rightarrow> finite_number n)
      \<and> (case sources m of None \<Rightarrow> True | Some xs \<Rightarrow> list_all is_json_form xs))"

definition conversation_storable :: "platform \<Rightarrow> conversation \<Rightarrow> bool" where
  "conversation_storable P c =
     (reads_back P (conv_timestamp c) \<and> list_all (message_storable P) (messages c))"


definition listed_platform ::
  "(string \<times> jsval) list \<Rightarrow> (int \<times> string) list \<Rightarrow> (jsval \<times> string) list \<Rightarrow> platform" where
  \<comment> \<open>A finite extract of the built-ins, for running the effects on concrete inputs: the
      listed JSON texts with the values they denote, the listed time values with their ISO
      strings, and the listed arrays and objects with their string conversions. A text
      that is not listed does not parse.\<close>
  "listed_platform texts dates prims =
     \<lparr>json_parse = map_of texts,
      json_stringify = (\<lambda>j. case find (\<lambda>p. snd p = j) texts of Some p \<Rightarrow> fst p | None \<Rightarrow> ''''),
      toISOString = (\<lambda>t. case map_of dates t of Some w \<Rightarrow> w | None \<Rightarrow> ''''),
      date_parse = (\<lambda>w. case find (\<lambda>p. snd p = w) dates of
                            Some p \<Rightarrow> Date (fst p) | None \<Rightarrow> InvalidDate),
      to_primitive = (\<lambda>j. case map_of prims j of Some w \<Rightarrow> w | None \<Rightarrow> '''')\<rparr>"

definition in_store :: "app \<Rightarrow> bool" where
  \<comment> \<open>The active conversation and the conversation of every pending call are in the store.\<close>
  "in_store a =
     (activeConversationId (ui a) \<in> conv_id ` set (conversations (ui a))
      \<and> (\<forall>call\<in>set (in_flight a).
            call_conversation call \<in> conv_id ` set (conversations (ui a))))"

section \<open>Facts about the conversation store\<close>

lemma messages_addMessageToConversation:
  "map messages (addMessageToConversation now cid m convs) =
     map (\<lambda>c. if conv_id c = cid then messages c @ [m] else messages c) convs"
  by (simp add: addMessageToConversation_def with_message_def Let_def)

lemma conv_id_addMessageToConversation:
  "map conv_id (addMessageToConversation now cid m convs) = map conv_id convs"
  by (simp add: addMessageToConversation_def with_message_def Let_def)

lemma title_with_message_first_user:
  "title conv = ''New Conversation'' \<Longrightarrow> role m = User \<Longrightarrow>
     title (with_message now m conv) = truncated 40 (content m)"
  by (simp add: with_message_def Let_def)

lemma title_with_message_kept:
  "title conv \<noteq> ''New Conversation'' \<or> role m = Agent \<Longrightarrow>
     title (with_message now m conv) = title conv"
  by (auto simp: with_message_def Let_def)

lemma title_kept_by_appends:
  "title conv \<noteq> ''New Conversation'' \<Longrightarrow>
     title (foldl (\<lambda>c (now, m). with_message now m c) conv ms) = title conv"
  by (induction ms arbitrary: conv) (auto simp: with_message_def Let_def)

lemma title_is_first_user_message_unless_sentinel:
  assumes "title conv = ''New Conversation''"
    and "\<forall>(now, m)\<in>set ms. role m = User \<longrightarrow> truncated 40 (content m) \<noteq> ''New Conversation''"
  shows "title (foldl (\<lambda>c (now, m). with_message now m c) conv ms) =
           (case find (\<lambda>(now, m). role m = User) ms of
              None \<Rightarrow> ''New Conversation''
            | Some (now, u) \<Rightarrow> truncated 40 (content u))"
  using assms
proof (induction ms arbitrary: conv)
  case Nil
  then show ?case by simp
next
  case (Cons p ms)
  obtain now m where p: "p = (now, m)"
    by (cases p) auto
  show ?case
  proof (cases "role m = User")
    case True
    then have t: "title (with_message now m conv) = truncated 40 (content m)"
      using Cons.prems(1) by (simp add: title_with_message_first_user)
    have "truncated 40 (content m) \<noteq> ''New Conversation''"
      using Cons.prems(2) True p by auto
    then show ?thesis
      using title_kept_by_appends[of "with_message now m conv" ms] t True p by simp
  next
    case False
    then have "title (with_message now m conv) = ''New Conversation''"
      using Cons.prems(1) by (simp add: with_message_def Let_def)
    then show ?thesis
      using Cons.IH[of "with_message now m conv"] Cons.prems(2) False p by simp
  qed
qed

lemma preview_ok_createNewConversation: "preview_ok (createNewConversation now rnd)"
  by (simp add: preview_ok_def createNewConversation_def welcomeMessage_def)

lemma preview_ok_with_message: "preview_ok (with_message now m conv)"
  by (simp add: preview_ok_def with_message_def Let_def)

lemma kept_or_ok_addMessageToConversation:
  assumes "\<forall>c\<in>set convs. c \<in> S \<or> preview_ok c"
  shows "\<forall>c\<in>set (addMessageToConversation now cid m convs). c \<in> S \<or> preview_ok c"
  using assms by (auto simp: addMessageToConversation_def preview_ok_with_message)

section \<open>Facts about the request cycle\<close>

lemma handleSendMessage_start_call:
  assumes "handleSendMessage_start now messageText s = (s', Some call)"
  shows "call = \<lparr>call_message = textToSend messageText s, call_agent_id = AGENT_ID,
                  call_conversation = activeConversationId s\<rparr>"
    and "textToSend messageText s \<noteq> ''''"
    and "activeConversationId s \<noteq> ''''"
  using assms by (auto simp: handleSendMessage_start_def split: if_splits)

lemma handleSendMessage_start_guard:
  "snd (handleSendMessage_start now messageText s) \<noteq> None \<longleftrightarrow>
     textToSend messageText s \<noteq> '''' \<and> activeConversationId s \<noteq> ''''"
  by (simp add: handleSendMessage_start_def)

lemma kept_or_ok_start:
  assumes "\<forall>c\<in>set (conversations s). c \<in> S \<or> preview_ok c"
  shows "\<forall>c\<in>set (conversations (fst (handleSendMessage_start now messageText s))).
           c \<in> S \<or> preview_ok c"
  using assms kept_or_ok_addMessageToConversation[OF assms]
  by (simp add: handleSendMessage_start_def)

lemma conversations_finish:
  "\<exists>m. conversations (fst (handleSendMessage_finish now call outcome s)) =
        addMessageToConversation now (call_conversation call) m (conversations s)"
  by (simp add: handleSendMessage_finish_def Let_def split: prod.splits) blast

lemma kept_or_ok_finish:
  assumes "\<forall>c\<in>set (conversations s). c \<in> S \<or> preview_ok c"
  shows "\<forall>c\<in>set (conversations (fst (handleSendMessage_finish now call outcome s))).
           c \<in> S \<or> preview_ok c"
proof -
  obtain m where "conversations (fst (handleSendMessage_finish now call outcome s)) =
      addMessageToConversation now (call_conversation call) m (conversations s)"
    using conversations_finish by blast
  then show ?thesis
    using kept_or_ok_addMessageToConversation[OF assms] by simp
qed

lemma kept_or_ok_step:
  assumes "\<forall>c\<in>set (conversations (ui a)). c \<in> S \<or> preview_ok c"
  shows "\<forall>c\<in>set (conversations (ui (step now rnd ev a))). c \<in> S \<or> preview_ok c"
proof (cases ev)
  case (KeyDown key shiftKey)
  then show ?thesis
    using assms kept_or_ok_start[OF assms, of now None]
    by (simp add: step_def launch_def handleKeyDown_def Let_def)
next
  case ClickSend
  then show ?thesis
    using assms kept_or_ok_start[OF assms, of now None]
    by (simp add: step_def launch_def Let_def)
next
  case (ClickQuickReply reply)
  then show ?thesis
    using assms kept_or_ok_start[OF assms, of now "Some reply"]
    by (simp add: step_def launch_def Let_def)
next
  case ClickNewChat
  then show ?thesis
    using assms
    by (simp add: step_def handleNewConversation_def Let_def preview_ok_createNewConversation)
next
  case (CallSettles i outcome)
  then show ?thesis
    using assms kept_or_ok_finish[OF assms, of now "in_flight a ! i" outcome]
    by (simp add: step_def Let_def)
qed (use assms in \<open>simp_all add: step_def Let_def handleInputChange_def
       handleSuggestedQuestion_def handleFeatureRequest_def\<close>)

lemma kept_or_ok_run:
  "\<forall>c\<in>set (conversations (ui a)). c \<in> S \<or> preview_ok c \<Longrightarrow>
     \<forall>c\<in>set (conversations (ui (run evs a))). c \<in> S \<or> preview_ok c"
proof (induction evs arbitrary: a)
  case Nil
  then show ?case by simp
next
  case (Cons e evs)
  obtain now rnd ev where e: "e = (now, rnd, ev)"
    by (cases e) auto
  show ?case
    using Cons.IH[OF kept_or_ok_step[OF Cons.prems, of now rnd ev]] e by simp
qed

lemma preview_ok_create_initial:
  "\<forall>c\<in>set (conversations (create_initial now rnd s)). preview_ok c"
  by (simp add: create_initial_def Let_def preview_ok_createNewConversation)

lemma kept_or_ok_after_try:
  assumes "after_try P now rnd stored s logged = (outcome, s0, logged0)"
    and "\<forall>c\<in>set (conversations s). c \<in> S \<or> preview_ok c"
  shows "\<forall>c\<in>set (conversations s0). c \<in> S \<or> preview_ok c"
  using assms preview_ok_create_initial[of now rnd s]
  by (auto simp: after_try_def split: option.splits sum.splits bool.splits)

lemma kept_or_ok_load_effect:
  assumes "load_effect P now rnd item initial_state = (outcome, s0, logged)"
  shows "\<forall>c\<in>set (conversations s0). c \<in> set (stored_conversations P item) \<or> preview_ok c"
proof (cases item)
  case None
  then show ?thesis
    using assms preview_ok_create_initial[of now rnd initial_state]
    by (auto simp: load_effect_def)
next
  case (Some stored)
  have e0: "conversations initial_state = []"
    by (simp add: initial_state_def)
  show ?thesis
  proof (cases "stored = []")
    case True
    then show ?thesis
      using assms Some preview_ok_create_initial[of now rnd initial_state]
      by (auto simp: load_effect_def)
  next
    case False
    show ?thesis
    proof (cases "parse_and_revive P stored")
      case (Inl e)
      show ?thesis
      proof (cases "e = NotTyped")
        case True
        then show ?thesis
          using assms Some False Inl e0 by (auto simp: load_effect_def)
      next
        case ne: False
        then have "after_try P now rnd stored initial_state
            [''Failed to parse stored conversations:''] = (outcome, s0, logged)"
          using assms Some False Inl by (cases e) (simp_all add: load_effect_def)
        then show ?thesis
          using kept_or_ok_after_try[where S = "set (stored_conversations P item)"
              and s = initial_state] e0
          by fastforce
      qed
    next
      case (Inr convs)
      define s1 where "s1 = (case convs of
                      [] \<Rightarrow> initial_state\<lparr>conversations := convs\<rparr>
                    | c # _ \<Rightarrow> initial_state\<lparr>conversations := convs,
                                 activeConversationId := conv_id c\<rparr>)"
      have c1: "conversations s1 = convs"
        by (simp add: s1_def split: list.splits)
      have st: "stored_conversations P item = convs"
        using Some Inr by (simp add: stored_conversations_def)
      have "after_try P now rnd stored s1 [] = (outcome, s0, logged)"
        using assms Some False Inr by (simp add: load_effect_def s1_def)
      then show ?thesis
        using kept_or_ok_after_try[where S = "set (stored_conversations P item)" and s = s1]
          c1 st
        by fastforce
    qed
  qed
qed

section \<open>The conversation a call belongs to\<close>

text \<open>
  On the running page the active conversation is in the store, and so is the
  conversation that a pending call was started from: conversations are never removed and
  keep their identifiers.
\<close>

lemma ids_start:
  "map conv_id (conversations (fst (handleSendMessage_start now messageText s))) =
     map conv_id (conversations s)"
  by (simp add: handleSendMessage_start_def conv_id_addMessageToConversation)

lemma active_start:
  "activeConversationId (fst (handleSendMessage_start now messageText s)) =
     activeConversationId s"
  by (simp add: handleSendMessage_start_def)

lemma call_of_start:
  "snd (handleSendMessage_start now messageText s) = Some call \<Longrightarrow>
     call_conversation call = activeConversationId s"
  by (auto simp: handleSendMessage_start_def split: if_splits)

lemma ids_finish:
  "map conv_id (conversations (fst (handleSendMessage_finish now call outcome s))) =
     map conv_id (conversations s)"
  by (simp add: handleSendMessage_finish_def Let_def conv_id_addMessageToConversation
        split: prod.splits)

lemma active_finish:
  "activeConversationId (fst (handleSendMessage_finish now call outcome s)) =
     activeConversationId s"
  by (simp add: handleSendMessage_finish_def Let_def split: prod.splits)

lemma in_store_launch:
  assumes "in_store a"
  shows "in_store (launch (handleSendMessage_start now messageText (ui a)) a)"
proof -
  have ids: "conv_id ` set (conversations (fst (handleSendMessage_start now messageText (ui a))))
               = conv_id ` set (conversations (ui a))"
    using ids_start[of now messageText "ui a"] by (metis set_map)
  show ?thesis
    using assms call_of_start[of now messageText "ui a"]
    by (auto simp: in_store_def launch_def ids active_start split: option.splits)
qed

lemma in_store_step:
  assumes "in_store a"
  shows "in_store (step now rnd ev a)"
proof (cases ev)
  case (KeyDown key shiftKey)
  then show ?thesis
    using assms in_store_launch[OF assms, of now None]
    by (simp add: step_def Let_def handleKeyDown_def launch_def)
next
  case ClickSend
  then show ?thesis
    using assms in_store_launch[OF assms, of now None]
    by (simp add: step_def Let_def)
next
  case (ClickQuickReply reply)
  then show ?thesis
    using assms in_store_launch[OF assms, of now "Some reply"]
    by (simp add: step_def Let_def)
next
  case ClickNewChat
  then show ?thesis
    using assms by (auto simp: step_def Let_def handleNewConversation_def in_store_def)
next
  case (ClickConversation cid)
  then show ?thesis
    using assms by (auto simp: step_def Let_def in_store_def filteredConversations_def)
next
  case (CallSettles i outcome)
  have ids: "conv_id ` set (conversations
                 (fst (handleSendMessage_finish now (in_flight a ! i) outcome (ui a))))
               = conv_id ` set (conversations (ui a))"
    using ids_finish[of now "in_flight a ! i" outcome "ui a"] by (metis set_map)
  have sub: "set (take i (in_flight a) @ drop (Suc i) (in_flight a)) \<subseteq> set (in_flight a)"
    using set_take_subset[of i "in_flight a"] set_drop_subset[of "Suc i" "in_flight a"]
    by auto
  show ?thesis
    using assms CallSettles sub
    by (auto simp: step_def Let_def in_store_def ids active_finish simp del: set_append)
qed (use assms in \<open>simp_all add: step_def Let_def in_store_def handleInputChange_def
       handleSuggestedQuestion_def handleFeatureRequest_def\<close>)

lemma in_store_run: "in_store a \<Longrightarrow> in_store (run evs a)"
proof (induction evs arbitrary: a)
  case Nil
  then show ?case by simp
next
  case (Cons e evs)
  obtain now rnd ev where e: "e = (now, rnd, ev)"
    by (cases e) auto
  show ?case
    using Cons.IH[OF in_store_step[OF Cons.prems, of now rnd ev]] e by simp
qed

lemma in_store_first_visit: "in_store (first_visit now rnd)"
  by (simp add: in_store_def first_visit_def create_initial_def Let_def)

lemma active_conversation_in_store:
  "activeConversationId (ui (run evs (first_visit now rnd)))
     \<in> conv_id ` set (conversations (ui (run evs (first_visit now rnd))))"
  using in_store_run[OF in_store_first_visit] by (simp add: in_store_def)

lemma pending_call_conversation_in_store:
  "call \<in> set (in_flight (run evs (first_visit now rnd))) \<Longrightarrow>
     call_conversation call \<in> conv_id ` set (conversations (ui (run evs (first_visit now rnd))))"
  using in_store_run[OF in_store_first_visit] by (simp add: in_store_def)

section \<open>Titles and previews\<close>

lemmas run_defs =
  first_visit_def create_initial_def initial_state_def createNewConversation_def
  welcomeMessage_def step_def launch_def handleKeyDown_def handleInputChange_def
  handleSuggestedQuestion_def handleSendMessage_start_def handleSendMessage_finish_def
  textToSend_def addMessageToConversation_def with_message_def userMessage_def
  agentMessage_def errorMessage_def error_or_generic_def truncated_def trim_def
  is_white_space_def Let_def

lemmas listed_defs =
  listed_platform_def load_effect_def parse_and_revive_def after_try_def length_is_zero_def
  revive_conversation_def revive_message_def collect_def newDate_def create_initial_def
  stringify_conversations_def value_of_conversation_def value_of_message_def toJSON_date_def
  json_number_def role_name_def role_of_name_def optional_number_def optional_array_def
  optional_strings_def save_effect_def

lemma string_of_nat_1000: "string_of_nat 1000 = ''1000''"
  by code_simp

text \<open>
  Claim C1: after any sequence of appends, the title of a conversation is the content of
  the first user message appended to it, cut to its first 40 characters with \<open>...\<close> added
  when it is longer, and later messages leave the title unchanged.

  \<open>addMessageToConversation\<close> takes a conversation to have no user message yet when its
  title still is \<open>New Conversation\<close>. A first user message with exactly that content
  leaves the title as it is, and the next user message then replaces it: in this run the
  user sends \<open>New Conversation\<close>, the agent answers, the user sends \<open>Hello\<close>, and the title
  ends as \<open>Hello\<close>.
\<close>

theorem title_replaced_by_second_user_message:
  "(let a = run [(1001, '''', InputChange ''New Conversation''),
                (1002, '''', KeyDown ''Enter'' False),
                (1003, '''', CallSettles 0 Rejected),
                (1004, '''', InputChange ''Hello''),
                (1005, '''', KeyDown ''Enter'' False)]
               (first_visit 1000 ''k3j2h1g0f'')
    in map (\<lambda>c. map content (filter (\<lambda>m. role m = User) (messages c))) (conversations (ui a))
         = [[''New Conversation'', ''Hello'']]
       \<and> map title (conversations (ui a)) = [''Hello''])"
  by (simp add: run_defs)

text \<open>
  Claim C8, as stated: the preview of every conversation in the store, a freshly created
  one included, is the content of its last message cut to 60 characters with \<open>...\<close> added
  when it is longer. A freshly created conversation has the preview
  \<open>Hi! I'm here to help...\<close>, which is not the welcome message cut to 60 characters.
\<close>

theorem new_conversation_preview_is_not_truncation:
  "preview (createNewConversation 1000 ''k3j2h1g0f'') \<noteq>
     truncated 60 (content (last (messages (createNewConversation 1000 ''k3j2h1g0f''))))"
  by (simp add: createNewConversation_def welcomeMessage_def truncated_def)

text \<open>
  A conversation that the load effect reads from local storage comes with the preview it
  was stored with, whatever that is; only an append computes a preview.
\<close>

lemma loaded_conversation_keeps_stored_preview:
  "(let stored = ''[{\"id\":\"c1\",\"title\":\"t\",\"preview\":\"anything\",\"timestamp\":\"1970-01-01T00:00:01.000Z\",\"messages\":[{\"id\":\"m1\",\"role\":\"user\",\"content\":\"hello\",\"timestamp\":\"1970-01-01T00:00:01.000Z\"}]}]'';
        P = listed_platform
              [(stored,
                JArr [JObj [(''id'', JStr ''c1''), (''title'', JStr ''t''),
                            (''preview'', JStr ''anything''),
                            (''timestamp'', JStr ''1970-01-01T00:00:01.000Z''),
                            (''messages'',
                             JArr [JObj [(''id'', JStr ''m1''), (''role'', JStr ''user''),
                                         (''content'', JStr ''hello''),
                                         (''timestamp'', JStr ''1970-01-01T00:00:01.000Z'')]])]])]
              [(1000, ''1970-01-01T00:00:01.000Z'')] [];
        c = \<lparr>conv_id = ''c1'', title = ''t'', preview = ''anything'',
              conv_timestamp = Date 1000,
              messages = [\<lparr>msg_id = ''m1'', role = User, content = ''hello'',
                           msg_timestamp = Date 1000, confidence = None, sources = None,
                           suggested_followup = None\<rparr>]\<rparr>
    in load_effect P 2000 ''q8w7e6r5t'' (Some stored) initial_state =
         (Completed, initial_state\<lparr>conversations := [c], activeConversationId := ''c1''\<rparr>, [])
       \<and> stored_conversations P (Some stored) = [c]
       \<and> \<not> preview_ok c)"
  by (simp add: listed_defs stored_conversations_def preview_ok_def truncated_def Let_def)

text \<open>
  Claim C8, amended: in every state of the page, on a first visit and on a returning one,
  the preview of every conversation in the store is the content of its last message cut
  to 60 characters with \<open>...\<close> added when it is longer; or it is the fixed preview
  \<open>Hi! I'm here to help...\<close>, in a conversation that holds only the welcome message; or
  it is the preview the conversation was stored with, in a conversation that the load
  effect read from local storage and that has had no message appended since.
\<close>

theorem preview_of_every_conversation:
  assumes "load_effect P now rnd item initial_state = (outcome, s0, logged)"
    and "c \<in> set (conversations (ui (run evs \<lparr>ui = s0, in_flight = [], console = logged\<rparr>)))"
  shows "(messages c \<noteq> [] \<and> preview c = truncated 60 (content (last (messages c))))
    \<or> (length (messages c) = 1 \<and> role (hd (messages c)) = Agent
        \<and> content (hd (messages c)) =
              ''Hi! I'm here to help. Ask me anything about our products and services.''
        \<and> preview c = ''Hi! I'm here to help...'')
    \<or> c \<in> set (stored_conversations P item)"
proof -
  have "\<forall>c\<in>set (conversations (ui \<lparr>ui = s0, in_flight = [], console = logged\<rparr>)).
          c \<in> set (stored_conversations P item) \<or> preview_ok c"
    using kept_or_ok_load_effect[OF assms(1)] by simp
  then have "c \<in> set (stored_conversations P item) \<or> preview_ok c"
    using kept_or_ok_run assms(2) by blast
  then show ?thesis
    unfolding preview_ok_def by blast
qed

theorem preview_of_every_conversation_witness:
  "(let P = listed_platform [] [] [];
        s0 = ui (first_visit 1000 ''k3j2h1g0f'');
        a = run [(1001, '''', InputChange ''Where is my order?''),
                 (1002, '''', KeyDown ''Enter'' False),
                 (1003, ''m4n5b6v7c'', ClickNewChat)]
                \<lparr>ui = s0, in_flight = [], console = []\<rparr>
    in load_effect P 1000 ''k3j2h1g0f'' None initial_state = (Completed, s0, [])
       \<and> map (\<lambda>c. c \<in> set (conversations (ui a))) (conversations (ui a)) = [True, True]
       \<and> stored_conversations P None = []
       \<and> map (\<lambda>c. (length (messages c), content (last (messages c)), preview c))
             (conversations (ui a)) =
           [(1, ''Hi! I'm here to help. Ask me anything about our products and services.'',
             ''Hi! I'm here to help...''),
            (2, ''Where is my order?'', ''Where is my order?'')])"
proof -
  define P where "P = listed_platform [] [] []"
  define s0 where "s0 = ui (first_visit 1000 ''k3j2h1g0f'')"
  define a where "a = run [(1001, '''', InputChange ''Where is my order?''),
                 (1002, '''', KeyDown ''Enter'' False),
                 (1003, ''m4n5b6v7c'', ClickNewChat)]
                \<lparr>ui = s0, in_flight = [], console = []\<rparr>"
  have ld: "load_effect P 1000 ''k3j2h1g0f'' None initial_state = (Completed, s0, [])"
    by (simp add: load_effect_def first_visit_def s0_def)
  have st: "stored_conversations P None = []"
    by (simp add: stored_conversations_def)
  have shape: "map (\<lambda>c. (length (messages c), content (last (messages c))))
             (conversations (ui a)) =
           [(1, ''Hi! I'm here to help. Ask me anything about our products and services.''),
            (2, ''Where is my order?'')]"
    unfolding a_def s0_def by (simp add: run_defs handleNewConversation_def)
  obtain c1 c2 where cs: "conversations (ui a) = [c1, c2]"
    using shape by (cases "conversations (ui a)"; cases "tl (conversations (ui a))") auto
  have m: "c1 \<in> set (conversations (ui a))" "c2 \<in> set (conversations (ui a))"
    by (simp_all add: cs)
  have l: "length (messages c1) = 1" "length (messages c2) = 2"
       "content (last (messages c1)) =
          ''Hi! I'm here to help. Ask me anything about our products and services.''"
       "content (last (messages c2)) = ''Where is my order?''"
    using shape cs by auto
  have "map preview (conversations (ui a)) ! 0 = ''Hi! I'm here to help...''"
    unfolding a_def s0_def by (simp add: run_defs handleNewConversation_def)
  then have p1: "preview c1 = ''Hi! I'm here to help...''"
    by (simp add: cs)
  have p2: "preview c2 = ''Where is my order?''"
    using preview_of_every_conversation[OF ld m(2)[unfolded a_def]] l(2,4) st
    by (auto simp: truncated_def)
  have "map (\<lambda>c. c \<in> set (conversations (ui a))) (conversations (ui a)) = [True, True]"
    by (simp add: cs)
  moreover have "map (\<lambda>c. (length (messages c), content (last (messages c)), preview c))
             (conversations (ui a)) =
           [(1, ''Hi! I'm here to help. Ask me anything about our products and services.'',
             ''Hi! I'm here to help...''),
            (2, ''Where is my order?'', ''Where is my order?'')]"
    using cs l p1 p2 by simp
  ultimately show ?thesis
    using ld st unfolding Let_def a_def[symmetric] s0_def[symmetric] P_def[symmetric]
    by blast
qed

section \<open>The send operation\<close>




lemma blank_send_events_change_nothing:
  assumes "trim (inputValue (ui a)) = '''' \<or> activeConversationId (ui a) = ''''"
  shows "step now rnd ClickSend a = a"
    and "step now rnd (KeyDown key shiftKey) a = a"
    and "activeConversationId (ui a) = '''' \<Longrightarrow> step now rnd (ClickQuickReply reply) a = a"
  using assms
  by (auto simp: step_def Let_def launch_def handleKeyDown_def handleSendMessage_start_def
        textToSend_def)

text \<open>
  Claim C10: every send that passes the guard sets the input text to the empty string,
  also when the text was passed as an argument (a quick reply) and the input box held a
  draft.
\<close>

theorem send_clears_input:
  assumes "textToSend messageText s \<noteq> ''''" and "activeConversationId s \<noteq> ''''"
  shows "inputValue (fst (handleSendMessage_start now messageText s)) = ''''"
  using assms by (simp add: handleSendMessage_start_def)

theorem send_clears_input_witness:
  "(let s = (ui (first_visit 1000 ''k3j2h1g0f''))\<lparr>inputValue := ''my draft''\<rparr>
    in textToSend (Some ''Pricing'') s \<noteq> '''' \<and> activeConversationId s \<noteq> ''''
       \<and> inputValue s = ''my draft''
       \<and> inputValue (fst (handleSendMessage_start 1001 (Some ''Pricing'') s)) = '''')"
proof -
  define s where "s = (ui (first_visit 1000 ''k3j2h1g0f''))\<lparr>inputValue := ''my draft''\<rparr>"
  have h1: "textToSend (Some ''Pricing'') s \<noteq> ''''"
    by (simp add: textToSend_def)
  have h2: "activeConversationId s \<noteq> ''''"
    by (simp add: s_def first_visit_def create_initial_def createNewConversation_def Let_def)
  have h3: "inputValue s = ''my draft''"
    by (simp add: s_def)
  show ?thesis
    using h1 h2 h3 send_clears_input[OF h1 h2, of 1001] unfolding s_def Let_def by blast
qed

text \<open>
  Claim C3: for every send that passes the guard, the loading flag is false once the
  operation completes, however the call settled; when the call rejects, or resolves with
  a result that is not a success with a response, exactly one fallback agent message is
  appended to the conversation that was active when the send started, and to no other:
  with the generic text of the catch branch in the first case, and with the error string
  of the result, or the generic text when there is none, in the second. The continuation
  may run in any later state \<open>s\<close> of the page.
\<close>

theorem send_failure_appends_fallback_and_clears_flag:
  assumes "handleSendMessage_start now0 messageText s0 = (s1, Some call)"
  shows "isTyping (fst (handleSendMessage_finish now call outcome s)) = False
    \<and> map messages (conversations (fst (handleSendMessage_finish now call Rejected s))) =
        map (\<lambda>c. if conv_id c = activeConversationId s0
                  then messages c
                         @ [errorMessage now ''Sorry, something went wrong. Please try again.'']
                  else messages c)
          (conversations s)
    \<and> (\<not> (success r \<and> response r \<noteq> None) \<longrightarrow>
         map messages (conversations (fst (handleSendMessage_finish now call (Resolved r) s))) =
           map (\<lambda>c. if conv_id c = activeConversationId s0
                     then messages c @ [errorMessage now (error_or_generic (error r))]
                     else messages c)
             (conversations s))
    \<and> role (errorMessage now e) = Agent \<and> content (errorMessage now e) = e
    \<and> (error r = Some e \<and> e \<noteq> '''' \<longrightarrow> error_or_generic (error r) = e)
    \<and> (error r = None \<or> error r = Some '''' \<longrightarrow>
         error_or_generic (error r) = ''Sorry, I encountered an error. Please try again.'')"
  using handleSendMessage_start_call(1)[OF assms]
  by (auto simp: handleSendMessage_finish_def Let_def messages_addMessageToConversation
        errorMessage_def error_or_generic_def
      split: call_outcome.splits option.splits bool.splits prod.splits)

theorem send_failure_appends_fallback_and_clears_flag_witness:
  "(let s0 = (ui (first_visit 1000 ''k3j2h1g0f''))\<lparr>inputValue := ''Hi''\<rparr>;
        s1 = fst (handleSendMessage_start 1001 None s0);
        call = \<lparr>call_message = ''Hi'', call_agent_id = AGENT_ID,
                call_conversation = ''conv-1000-k3j2h1g0f''\<rparr>;
        r = \<lparr>success = False, response = None, error = Some ''Agent unavailable''\<rparr>
    in handleSendMessage_start 1001 None s0 = (s1, Some call)
       \<and> isTyping s1
       \<and> \<not> isTyping (fst (handleSendMessage_finish 1002 call (Resolved r) s1))
       \<and> map (map content \<circ> messages)
             (conversations (fst (handleSendMessage_finish 1002 call (Resolved r) s1))) =
           [[''Hi! I'm here to help. Ask me anything about our products and services.'',
             ''Hi'', ''Agent unavailable'']]
       \<and> map (map content \<circ> messages)
             (conversations (fst (handleSendMessage_finish 1002 call Rejected s1))) =
           [[''Hi! I'm here to help. Ask me anything about our products and services.'',
             ''Hi'', ''Sorry, something went wrong. Please try again.'']])"
proof -
  define s0 where "s0 = (ui (first_visit 1000 ''k3j2h1g0f''))\<lparr>inputValue := ''Hi''\<rparr>"
  define s1 where "s1 = fst (handleSendMessage_start 1001 None s0)"
  define call where "call = \<lparr>call_message = ''Hi'', call_agent_id = AGENT_ID,
                call_conversation = ''conv-1000-k3j2h1g0f''\<rparr>"
  define r where "r = \<lparr>success = False, response = None, error = Some ''Agent unavailable''\<rparr>"
  have st: "handleSendMessage_start 1001 None s0 = (s1, Some call)"
    unfolding s1_def s0_def call_def
    by (simp add: handleSendMessage_start_def textToSend_def first_visit_def create_initial_def
          initial_state_def createNewConversation_def string_of_nat_1000 trim_def
          is_white_space_def Let_def)
  have a0: "activeConversationId s0 = ''conv-1000-k3j2h1g0f''"
    unfolding s0_def
    by (simp add: first_visit_def create_initial_def createNewConversation_def
          string_of_nat_1000 Let_def)
  have c1: "map (\<lambda>c. (conv_id c, map content (messages c))) (conversations s1) =
      [(''conv-1000-k3j2h1g0f'',
        [''Hi! I'm here to help. Ask me anything about our products and services.'', ''Hi''])]"
    unfolding s1_def s0_def
    by (simp add: handleSendMessage_start_def textToSend_def first_visit_def create_initial_def
          initial_state_def createNewConversation_def welcomeMessage_def userMessage_def
          addMessageToConversation_def with_message_def string_of_nat_1000 trim_def
          is_white_space_def Let_def)
  have t1: "isTyping s1"
    using st unfolding handleSendMessage_start_def by (auto split: if_splits)
  note main = send_failure_appends_fallback_and_clears_flag[OF st, of 1002 _ s1 r]
  have nr: "\<not> (success r \<and> response r \<noteq> None)"
    by (simp add: r_def)
  have f: "\<not> isTyping (fst (handleSendMessage_finish 1002 call (Resolved r) s1))"
    using main[of "Resolved r"] by simp
  obtain c where cs: "conversations s1 = [c]"
    using c1 by (cases "conversations s1") auto
  have cc: "conv_id c = ''conv-1000-k3j2h1g0f''"
       "map content (messages c) =
          [''Hi! I'm here to help. Ask me anything about our products and services.'', ''Hi'']"
    using c1 cs by auto
  have m2: "map (map content \<circ> messages)
             (conversations (fst (handleSendMessage_finish 1002 call (Resolved r) s1))) =
           [[''Hi! I'm here to help. Ask me anything about our products and services.'',
             ''Hi'', ''Agent unavailable'']]"
  proof -
    have "map messages (conversations (fst (handleSendMessage_finish 1002 call (Resolved r) s1)))
        = [messages c @ [errorMessage 1002 (error_or_generic (error r))]]"
      using main[of Rejected] nr cs cc(1) a0 by simp
    then have "map (map content) (map messages
          (conversations (fst (handleSendMessage_finish 1002 call (Resolved r) s1))))
        = [[''Hi! I'm here to help. Ask me anything about our products and services.'',
             ''Hi'', ''Agent unavailable'']]"
      using cc(2) by (simp add: errorMessage_def error_or_generic_def r_def)
    then show ?thesis by (simp only: map_map)
  qed
  have m3: "map (map content \<circ> messages)
             (conversations (fst (handleSendMessage_finish 1002 call Rejected s1))) =
           [[''Hi! I'm here to help. Ask me anything about our products and services.'',
             ''Hi'', ''Sorry, something went wrong. Please try again.'']]"
  proof -
    have "map messages (conversations (fst (handleSendMessage_finish 1002 call Rejected s1)))
        = [messages c @ [errorMessage 1002 ''Sorry, something went wrong. Please try again.'']]"
      using main[of Rejected] cs cc(1) a0 by simp
    then have "map (map content) (map messages
          (conversations (fst (handleSendMessage_finish 1002 call Rejected s1))))
        = [[''Hi! I'm here to help. Ask me anything about our products and services.'',
             ''Hi'', ''Sorry, something went wrong. Please try again.'']]"
      using cc(2) by (simp add: errorMessage_def)
    then show ?thesis by (simp only: map_map)
  qed
  show ?thesis
    using st t1 f m2 m3 unfolding s0_def s1_def call_def r_def Let_def by blast
qed

text \<open>
  Claim C6: when the agent call resolves successfully with a response, exactly one agent
  message is appended to the conversation that was active when the send started, and to
  no other; its content is the answer of the response, and its confidence, sources and
  suggested follow-ups are those of the response, unchanged.
\<close>

theorem send_success_appends_agent_message:
  assumes "handleSendMessage_start now0 messageText s0 = (s1, Some call)"
    and "success r" and "response r = Some resp"
  shows "map messages (conversations (fst (handleSendMessage_finish now call (Resolved r) s))) =
           map (\<lambda>c. if conv_id c = activeConversationId s0
                     then messages c @ [agentMessage now resp] else messages c)
             (conversations s)
    \<and> role (agentMessage now resp) = Agent
    \<and> content (agentMessage now resp) = answer (resp_result resp)
    \<and> confidence (agentMessage now resp) = Some (res_confidence (resp_result resp))
    \<and> sources (agentMessage now resp) = Some (res_sources (resp_result resp))
    \<and> suggested_followup (agentMessage now resp) =
         Some (res_suggested_followup (resp_result resp))"
  using handleSendMessage_start_call(1)[OF assms(1)] assms(2,3)
  by (simp add: handleSendMessage_finish_def Let_def messages_addMessageToConversation
        agentMessage_def)

theorem send_success_appends_agent_message_witness:
  "(let s0 = (ui (first_visit 1000 ''k3j2h1g0f''))\<lparr>inputValue := ''Hi''\<rparr>;
        s1 = fst (handleSendMessage_start 1001 None s0);
        call = \<lparr>call_message = ''Hi'', call_agent_id = AGENT_ID,
                call_conversation = ''conv-1000-k3j2h1g0f''\<rparr>;
        resp = \<lparr>resp_status = StatusSuccess,
                resp_result = \<lparr>answer = ''Hello there'', res_sources = [JStr ''faq''],
                               res_confidence = Finite (9 / 10),
                               res_suggested_followup = [''Pricing?'']\<rparr>\<rparr>;
        r = \<lparr>success = True, response = Some resp, error = None\<rparr>
    in handleSendMessage_start 1001 None s0 = (s1, Some call)
       \<and> success r \<and> response r = Some resp
       \<and> map (\<lambda>c. map (\<lambda>m. (role m, content m, confidence m, sources m, suggested_followup m))
                     (drop 2 (messages c)))
             (conversations (fst (handleSendMessage_finish 1002 call (Resolved r) s1))) =
           [[(Agent, ''Hello there'', Some (Finite (9 / 10)), Some [JStr ''faq''], Some [''Pricing?''])]])"
proof -
  define s0 where "s0 = (ui (first_visit 1000 ''k3j2h1g0f''))\<lparr>inputValue := ''Hi''\<rparr>"
  define s1 where "s1 = fst (handleSendMessage_start 1001 None s0)"
  define call where "call = \<lparr>call_message = ''Hi'', call_agent_id = AGENT_ID,
                call_conversation = ''conv-1000-k3j2h1g0f''\<rparr>"
  define resp where "resp = \<lparr>resp_status = StatusSuccess,
                resp_result = \<lparr>answer = ''Hello there'', res_sources = [JStr ''faq''],
                               res_confidence = Finite (9 / 10),
                               res_suggested_followup = [''Pricing?'']\<rparr>\<rparr>"
  define r where "r = \<lparr>success = True, response = Some resp, error = None\<rparr>"
  have st: "handleSendMessage_start 1001 None s0 = (s1, Some call)"
    unfolding s1_def s0_def call_def
    by (simp add: handleSendMessage_start_def textToSend_def first_visit_def create_initial_def
          initial_state_def createNewConversation_def string_of_nat_1000 trim_def
          is_white_space_def Let_def)
  have ok: "success r" "response r = Some resp"
    by (simp_all add: r_def)
  have a0: "activeConversationId s0 = ''conv-1000-k3j2h1g0f''"
    unfolding s0_def
    by (simp add: first_visit_def create_initial_def createNewConversation_def
          string_of_nat_1000 Let_def)
  have c1: "map (\<lambda>c. (conv_id c, length (messages c))) (conversations s1) =
      [(''conv-1000-k3j2h1g0f'', 2)]"
    unfolding s1_def s0_def
    by (simp add: handleSendMessage_start_def textToSend_def first_visit_def create_initial_def
          initial_state_def createNewConversation_def
          addMessageToConversation_def with_message_def string_of_nat_1000 trim_def
          is_white_space_def Let_def)
  obtain c where cs: "conversations s1 = [c]"
    using c1 by (cases "conversations s1") auto
  have cc: "conv_id c = ''conv-1000-k3j2h1g0f''" "length (messages c) = 2"
    using c1 cs by auto
  note main = send_success_appends_agent_message[OF st ok, of 1002 s1]
  have "map messages (conversations (fst (handleSendMessage_finish 1002 call (Resolved r) s1)))
      = [messages c @ [agentMessage 1002 resp]]"
    using main cs cc(1) a0 by simp
  then have "map (\<lambda>ms. map (\<lambda>m. (role m, content m, confidence m, sources m, suggested_followup m))
                     (drop 2 ms))
       (map messages (conversations (fst (handleSendMessage_finish 1002 call (Resolved r) s1)))) =
           [[(Agent, ''Hello there'', Some (Finite (9 / 10)), Some [JStr ''faq''], Some [''Pricing?''])]]"
    using cc(2) main by (simp add: resp_def)
  then have fin: "map (\<lambda>c. map (\<lambda>m. (role m, content m, confidence m, sources m, suggested_followup m))
                     (drop 2 (messages c)))
             (conversations (fst (handleSendMessage_finish 1002 call (Resolved r) s1))) =
           [[(Agent, ''Hello there'', Some (Finite (9 / 10)), Some [JStr ''faq''], Some [''Pricing?''])]]"
    by (simp only: map_map comp_def)
  show ?thesis
    using st ok fin unfolding s0_def s1_def call_def resp_def r_def Let_def by blast
qed

section \<open>The running page: overlapping calls and the input bound\<close>

lemma disabled_controls_start_no_call_while_loading:
  assumes "isTyping (ui a)"
  shows "in_flight (step now rnd ClickSend a) = in_flight a"
    and "in_flight (step now rnd (ClickQuickReply reply) a) = in_flight a"
  using assms
  by (simp_all add: step_def Let_def send_disabled_def quick_replies_shown_def
        split: option.splits)

lemma enter_key_ignores_loading_flag:
  assumes "isTyping (ui a)" and "trim (inputValue (ui a)) \<noteq> ''''"
    and "activeConversationId (ui a) \<noteq> ''''"
  shows "length (in_flight (step now rnd (KeyDown ''Enter'' False) a)) = Suc (length (in_flight a))"
  using assms
  by (simp add: step_def Let_def launch_def handleKeyDown_def handleSendMessage_start_def
        textToSend_def)

text \<open>
  Claim C9: while an agent call is pending (the loading flag is set), no user action,
  by the send button, the Enter key or a quick-reply chip, starts another agent call.

  The send button is disabled and the quick replies are not rendered while the flag is
  set, but the textarea stays enabled and neither \<open>handleKeyDown\<close> nor the guard of
  \<open>handleSendMessage\<close> reads the flag. In this run the user sends \<open>hi\<close> with Enter, and
  while that call is pending types \<open>again\<close> and presses Enter: two calls are in flight.
\<close>

theorem enter_key_starts_second_call_while_pending:
  "(let a1 = run [(1001, '''', InputChange ''hi''), (1002, '''', KeyDown ''Enter'' False)]
                (first_visit 1000 ''k3j2h1g0f'');
        a2 = run [(1003, '''', InputChange ''again''), (1004, '''', KeyDown ''Enter'' False)] a1
    in isTyping (ui a1) \<and> map call_message (in_flight a1) = [''hi'']
       \<and> isTyping (ui a2) \<and> map call_message (in_flight a2) = [''hi'', ''again''])"
  by (simp add: run_defs)

lemma other_writers_keep_input_bound:
  assumes "length (inputValue (ui a)) \<le> 500" and "\<forall>detail. ev \<noteq> SuggestedQuestion detail"
  shows "length (inputValue (ui (step now rnd ev a))) \<le> 500"
  using assms
  by (cases ev)
     (simp_all add: step_def Let_def launch_def handleKeyDown_def handleInputChange_def
        handleSendMessage_start_def handleSendMessage_finish_def handleNewConversation_def
        handleFeatureRequest_def split: prod.splits)

text \<open>
  Claim C4: in every reachable state the input text holds at most 500 characters; the
  change handler refuses a longer value, and every other operation that writes the input
  text, populating it from a clicked follow-up question included, keeps the bound.

  The change handler checks the length; the listener of \<open>send-suggested-question\<close> stores
  the question as it is. In this run the agent answers with a follow-up question of 501
  characters, the question is clicked, and the input text then holds 501 characters.
\<close>

theorem suggested_question_exceeds_input_bound:
  "(let q = replicate 501 (CHR ''a'');
        a = run [(1001, '''', InputChange ''hi''),
                 (1002, '''', KeyDown ''Enter'' False),
                 (1003, '''', CallSettles 0
                    (Resolved \<lparr>success = True,
                       response = Some \<lparr>resp_status = StatusSuccess,
                          resp_result = \<lparr>answer = ''ok'', res_sources = [],
                             res_confidence = Finite (9 / 10), res_suggested_followup = [q]\<rparr>\<rparr>,
                       error = None\<rparr>)),
                 (1004, '''', SuggestedQuestion q)]
                (first_visit 1000 ''k3j2h1g0f'')
    in map (\<lambda>c. suggested_followup (last (messages c))) (conversations (ui a)) = [Some [q]]
       \<and> inputValue (ui a) = q \<and> length (inputValue (ui a)) = 501)"
  by (simp add: run_defs)

section \<open>Persistence: facts\<close>

lemma strings_of_JStr: "strings_of (map JStr qs) = Some qs"
  by (induction qs) simp_all

lemma json_form_not_omitted: "is_json_form v \<Longrightarrow> \<not> omitted v"
  by (cases v) simp_all

lemma to_json_of_json_form: "is_json_form v \<Longrightarrow> to_json P v = v"
proof (induction v)
  case (JNum n)
  then show ?case
    by (cases n) (simp_all add: json_number_def finite_number_def)
next
  case (JArr xs)
  have "map (\<lambda>x. if omitted x then JNull else to_json P x) xs = map (\<lambda>x. x) xs"
    using JArr by (intro map_cong) (auto simp: list_all_iff json_form_not_omitted)
  then show ?case by simp
next
  case (JObj kvs)
  have all: "\<forall>kv\<in>set kvs. is_json_form (snd kv)"
    using JObj.prems by (simp add: list_all_iff)
  have f: "filter (\<lambda>kv. \<not> omitted (snd kv)) kvs = kvs"
    using all by (auto simp: filter_id_conv json_form_not_omitted)
  have "map (\<lambda>kv. (fst kv, to_json P (snd kv))) kvs = map (\<lambda>kv. kv) kvs"
  proof (intro map_cong refl)
    fix kv assume kv: "kv \<in> set kvs"
    have "snd kv \<in> Basic_BNFs.snds kv"
      by (cases kv) simp
    then have "to_json P (snd kv) = snd kv"
      using JObj.IH kv all by blast
    then show "(fst kv, to_json P (snd kv)) = kv"
      by simp
  qed
  then show ?case
    using f by simp
qed simp_all

lemma to_json_sources:
  "list_all is_json_form xs \<Longrightarrow> map (\<lambda>x. if omitted x then JNull else to_json P x) xs = xs"
  by (induction xs) (simp_all add: json_form_not_omitted to_json_of_json_form)

lemma newDate_toJSON_date: "reads_back P d \<Longrightarrow> newDate P (Some (toJSON_date P d)) = d"
  by (cases d) (simp_all add: reads_back_def newDate_def toJSON_date_def)

lemma revive_stored_message:
  assumes "message_storable P m"
  shows "revive_message P (to_json P (value_of_message m)) = Inr m"
proof -
  obtain cf so fu where o: "confidence m = cf" "sources m = so" "suggested_followup m = fu"
    by simp
  have d: "newDate P (Some (toJSON_date P (msg_timestamp m))) = msg_timestamp m"
    using assms by (intro newDate_toJSON_date) (simp add: message_storable_def)
  have cfn: "\<And>n. cf = Some n \<Longrightarrow> json_number n = JNum n"
    using assms o(1)
    by (auto simp: message_storable_def finite_number_def json_number_def split: jsnumber.splits)
  have son: "\<And>xs. so = Some xs \<Longrightarrow>
      map (\<lambda>x. if omitted x then JNull else to_json P x) xs = xs"
    using assms o(2) by (auto simp: message_storable_def to_json_sources)
  show ?thesis
    using d o cfn son
    by (cases cf; cases so; cases fu; cases "role m")
       (simp_all add: revive_message_def value_of_message_def role_name_def role_of_name_def
          optional_number_def optional_array_def optional_strings_def strings_of_JStr
          comp_def)
qed

lemma collect_Inr: "collect (map Inr xs) = Inr xs"
  by (induction xs) (auto simp: collect_def list_ex_iff)

lemma revive_stored_messages:
  assumes "list_all (message_storable P) ms"
  shows "collect (map (revive_message P) (map (\<lambda>m. to_json P (value_of_message m)) ms)) = Inr ms"
proof -
  have "map (revive_message P \<circ> (\<lambda>m. to_json P (value_of_message m))) ms = map Inr ms"
    using assms by (simp add: revive_stored_message list_all_iff)
  then show ?thesis by (simp only: map_map collect_Inr)
qed

lemma not_omitted_value_of_message: "\<not> omitted (value_of_message m)"
  by (simp add: value_of_message_def)

lemma not_omitted_value_of_conversation: "\<not> omitted (value_of_conversation c)"
  by (simp add: value_of_conversation_def)

lemma to_json_value_of_conversation:
  "to_json P (value_of_conversation c) =
     JObj [(''id'', JStr (conv_id c)),
           (''title'', JStr (title c)),
           (''preview'', JStr (preview c)),
           (''timestamp'', toJSON_date P (conv_timestamp c)),
           (''messages'', JArr (map (\<lambda>m. to_json P (value_of_message m)) (messages c)))]"
  by (simp add: value_of_conversation_def not_omitted_value_of_message comp_def)

lemma to_json_conversations:
  "to_json P (JArr (map value_of_conversation convs)) =
     JArr (map (\<lambda>c. to_json P (value_of_conversation c)) convs)"
  by (simp add: not_omitted_value_of_conversation comp_def)

lemma revive_stored_conversation:
  assumes "conversation_storable P c"
  shows "revive_conversation P (to_json P (value_of_conversation c)) = Inr c"
proof -
  have ms: "collect (map (revive_message P)
              (map (\<lambda>m. to_json P (value_of_message m)) (messages c))) = Inr (messages c)"
    using assms by (intro revive_stored_messages) (simp add: conversation_storable_def)
  have ts: "newDate P (Some (toJSON_date P (conv_timestamp c))) = conv_timestamp c"
    using assms by (intro newDate_toJSON_date) (simp add: conversation_storable_def)
  show ?thesis
    unfolding to_json_value_of_conversation
    using ms ts by (simp add: revive_conversation_def)
qed

lemma revive_stored_conversations:
  assumes "\<forall>c\<in>set convs. conversation_storable P c"
  shows "collect (map (revive_conversation P)
           (map (\<lambda>c. to_json P (value_of_conversation c)) convs)) = Inr convs"
proof -
  have "map (revive_conversation P \<circ> (\<lambda>c. to_json P (value_of_conversation c))) convs
          = map Inr convs"
    using assms by (simp add: revive_stored_conversation)
  then show ?thesis by (simp only: map_map collect_Inr)
qed

lemma wrong_shape_leaves_store_empty:
  "load_effect (listed_platform [(''{}'', JObj [])] [] []) 1000 ''k3j2h1g0f'' (Some ''{}'')
     initial_state =
   (Completed, initial_state, [''Failed to parse stored conversations:''])"
  by (simp add: listed_defs)

lemma stored_null_makes_load_throw:
  "load_effect (listed_platform [(''null'', JNull)] [] []) 1000 ''k3j2h1g0f'' (Some ''null'')
     initial_state =
   (Uncaught TypeError, initial_state, [''Failed to parse stored conversations:''])"
  by (simp add: listed_defs)

lemma nothing_stored_creates_conversation:
  "load_effect P now rnd None initial_state = (Completed, ui (first_visit now rnd), [])"
  by (simp add: load_effect_def first_visit_def)

text \<open>
  Claim C2: when the stored value is present but malformed (not valid JSON, say), the
  load on startup catches and logs the error and falls back to a store of one freshly
  created conversation, which becomes the active one; the load itself never throws.

  The try block catches the SyntaxError of its \<open>JSON.parse(stored)\<close> and logs it. The
  condition of the fallback, \<open>!stored || JSON.parse(stored).length === 0\<close>, parses the same
  string again outside the try block: the effect ends with an uncaught SyntaxError, the
  state is left as it was, and no conversation is created.
\<close>

theorem malformed_storage_makes_load_throw:
  assumes "stored \<noteq> ''''" and "json_parse P stored = None"
  shows "load_effect P now rnd (Some stored) s =
           (Uncaught SyntaxError, s, [''Failed to parse stored conversations:''])"
  using assms by (simp add: load_effect_def parse_and_revive_def after_try_def)

theorem malformed_storage_makes_load_throw_witness:
  "''{not json'' \<noteq> '''' \<and> json_parse (listed_platform [] [] []) ''{not json'' = None
   \<and> load_effect (listed_platform [] [] []) 1000 ''k3j2h1g0f'' (Some ''{not json'') initial_state =
       (Uncaught SyntaxError, initial_state, [''Failed to parse stored conversations:''])
   \<and> conversations initial_state = [] \<and> activeConversationId initial_state = ''''"
proof -
  have h1: "''{not json'' \<noteq> ''''"
    by simp
  have h2: "json_parse (listed_platform [] [] []) ''{not json'' = None"
    by (simp add: listed_platform_def)
  show ?thesis
    using h1 h2 malformed_storage_makes_load_throw[OF h1 h2, of 1000 "''k3j2h1g0f''" initial_state]
    by (simp add: initial_state_def)
qed

text \<open>
  Claim C5, as stated: for every non-empty conversation list, serializing it to the
  local-storage string and applying the load transformation gives back a list equal to
  the original, timestamps included. A list that holds an Invalid Date is not read back:
  \<open>JSON.stringify\<close> writes an Invalid Date as \<open>null\<close>, and \<open>new Date(null)\<close> is the epoch.
  Such a list is in memory after a load of stored data whose timestamp is no date
  string. Below, the first text is loaded, the loaded list is serialized to the second
  text, and the second text is loaded.
\<close>

theorem invalid_date_is_not_read_back:
  "(let text1 = ''[{\"id\":\"c1\",\"title\":\"t\",\"preview\":\"p\",\"timestamp\":\"soon\",\"messages\":[]}]'';
        text2 = ''[{\"id\":\"c1\",\"title\":\"t\",\"preview\":\"p\",\"timestamp\":null,\"messages\":[]}]'';
        P = listed_platform
              [(text1, JArr [JObj [(''id'', JStr ''c1''), (''title'', JStr ''t''),
                                   (''preview'', JStr ''p''), (''timestamp'', JStr ''soon''),
                                   (''messages'', JArr [])]]),
               (text2, JArr [JObj [(''id'', JStr ''c1''), (''title'', JStr ''t''),
                                   (''preview'', JStr ''p''), (''timestamp'', JNull),
                                   (''messages'', JArr [])]])]
              [] [];
        c = \<lparr>conv_id = ''c1'', title = ''t'', preview = ''p'', conv_timestamp = InvalidDate,
              messages = []\<rparr>
    in parse_and_revive P text1 = Inr [c]
       \<and> stringify_conversations P [c] = text2
       \<and> parse_and_revive P text2 = Inr [c\<lparr>conv_timestamp := Date 0\<rparr>]
       \<and> parse_and_revive P (stringify_conversations P [c]) \<noteq> Inr [c])"
  by (simp add: listed_defs Let_def)

text \<open>
  A number that is not finite is not read back either: the confidence of a message is a
  \<open>number\<close> that \<open>handleSendMessage\<close> copies from the response as it is, \<open>JSON.stringify\<close>
  writes \<open>Infinity\<close> as \<open>null\<close>, and the message read back holds \<open>null\<close>, which is no number.
  The same holds for an entry of \<open>sources\<close> that is no JSON value: undefined in the array
  is written as \<open>null\<close>.
\<close>

lemma infinite_confidence_is_not_read_back:
  "(let stored = ''[{\"id\":\"c1\",\"title\":\"t\",\"preview\":\"ok\",\"timestamp\":\"1970-01-01T00:00:01.000Z\",\"messages\":[{\"id\":\"m1\",\"role\":\"agent\",\"content\":\"ok\",\"timestamp\":\"1970-01-01T00:00:01.000Z\",\"confidence\":null,\"sources\":[null],\"suggested_followup\":[]}]}]'';
        P = listed_platform
              [(stored,
                JArr [JObj [(''id'', JStr ''c1''), (''title'', JStr ''t''),
                            (''preview'', JStr ''ok''),
                            (''timestamp'', JStr ''1970-01-01T00:00:01.000Z''),
                            (''messages'',
                             JArr [JObj [(''id'', JStr ''m1''), (''role'', JStr ''agent''),
                                         (''content'', JStr ''ok''),
                                         (''timestamp'', JStr ''1970-01-01T00:00:01.000Z''),
                                         (''confidence'', JNull),
                                         (''sources'', JArr [JNull]),
                                         (''suggested_followup'', JArr [])]])]])]
              [(1000, ''1970-01-01T00:00:01.000Z'')] [];
        c = \<lparr>conv_id = ''c1'', title = ''t'', preview = ''ok'', conv_timestamp = Date 1000,
              messages = [\<lparr>msg_id = ''m1'', role = Agent, content = ''ok'',
                           msg_timestamp = Date 1000, confidence = Some PosInfinity,
                           sources = Some [JUndefined], suggested_followup = Some []\<rparr>]\<rparr>
    in stringify_conversations P [c] = stored
       \<and> parse_and_revive P (stringify_conversations P [c]) \<noteq> Inr [c])"
  by (simp add: listed_defs Let_def)

text \<open>
  Claim C5, amended: for every non-empty conversation list in which the timestamp of
  every conversation and of every message is a valid date, every confidence is a finite
  number other than negative zero (which is written as \<open>0\<close>), and every entry of \<open>sources\<close>
  is a JSON value (\<open>null\<close>, a boolean, such a number, a string, or an array or object of
  JSON values), the save effect stores the serialized list, and the load transformation
  applied to the stored string gives back a list equal to the original: the same
  conversations in the same order, with the same messages in the same order, the same
  field values and the same timestamps; the load effect puts this list into the state and
  makes its first conversation the active one. The built-ins are taken to do what they
  do: \<open>JSON.parse\<close> reads the text that \<open>JSON.stringify\<close> wrote (a text that is not empty)
  as the JSON form written, and \<open>new Date\<close> reads the ISO string of a valid date as that
  date.
\<close>

theorem stored_conversations_are_read_back:
  assumes "conversations s \<noteq> []"
    and "\<forall>c\<in>set (conversations s). conversation_storable P c"
    and "json_parse P (stringify_conversations P (conversations s)) =
           Some (to_json P (JArr (map value_of_conversation (conversations s))))"
    and "stringify_conversations P (conversations s) \<noteq> ''''"
  shows "save_effect P s stored = Some (stringify_conversations P (conversations s))
    \<and> parse_and_revive P (stringify_conversations P (conversations s)) = Inr (conversations s)
    \<and> load_effect P now rnd (save_effect P s stored) s' =
        (Completed,
         s'\<lparr>conversations := conversations s,
            activeConversationId := conv_id (hd (conversations s))\<rparr>,
         [])"
proof -
  have sv: "save_effect P s stored = Some (stringify_conversations P (conversations s))"
    using assms(1) by (simp add: save_effect_def)
  have ps: "json_parse P (stringify_conversations P (conversations s)) =
           Some (JArr (map (\<lambda>c. to_json P (value_of_conversation c)) (conversations s)))"
    using assms(3) unfolding to_json_conversations .
  have rv: "parse_and_revive P (stringify_conversations P (conversations s))
              = Inr (conversations s)"
    using ps revive_stored_conversations[OF assms(2)]
    by (simp add: parse_and_revive_def)
  obtain c cs where cs: "conversations s = c # cs"
    using assms(1) by (cases "conversations s") auto
  have ld: "load_effect P now rnd (Some (stringify_conversations P (conversations s))) s' =
        (Completed,
         s'\<lparr>conversations := conversations s,
            activeConversationId := conv_id (hd (conversations s))\<rparr>,
         [])"
    using ps assms(4) rv cs
    by (simp add: load_effect_def after_try_def length_is_zero_def)
  show ?thesis
    using sv rv ld by simp
qed

theorem stored_conversations_are_read_back_witness:
  "(let stamp = ''1970-01-01T00:00:01.000Z'';
        stored_text = ''[{\"id\":\"c1\",\"title\":\"Hi\",\"preview\":\"ok\",\"timestamp\":\"1970-01-01T00:00:01.000Z\",\"messages\":[{\"id\":\"m1\",\"role\":\"agent\",\"content\":\"ok\",\"timestamp\":\"1970-01-01T00:00:01.000Z\",\"confidence\":0.9,\"sources\":[\"faq\"],\"suggested_followup\":[\"Pricing?\"]}]}]'';
        P = listed_platform
              [(stored_text,
                JArr [JObj [(''id'', JStr ''c1''), (''title'', JStr ''Hi''),
                            (''preview'', JStr ''ok''), (''timestamp'', JStr stamp),
                            (''messages'',
                             JArr [JObj [(''id'', JStr ''m1''), (''role'', JStr ''agent''),
                                         (''content'', JStr ''ok''), (''timestamp'', JStr stamp),
                                         (''confidence'', JNum (Finite (9 / 10))),
                                         (''sources'', JArr [JStr ''faq'']),
                                         (''suggested_followup'', JArr [JStr ''Pricing?''])]])]])]
              [(1000, stamp)] [];
        c = \<lparr>conv_id = ''c1'', title = ''Hi'', preview = ''ok'', conv_timestamp = Date 1000,
              messages = [\<lparr>msg_id = ''m1'', role = Agent, content = ''ok'',
                           msg_timestamp = Date 1000, confidence = Some (Finite (9 / 10)),
                           sources = Some [JStr ''faq''],
                           suggested_followup = Some [''Pricing?'']\<rparr>]\<rparr>;
        s = initial_state\<lparr>conversations := [c], activeConversationId := ''c1''\<rparr>
    in conversations s \<noteq> []
       \<and> list_all (conversation_storable P) (conversations s)
       \<and> json_parse P (stringify_conversations P (conversations s)) =
            Some (to_json P (JArr (map value_of_conversation (conversations s))))
       \<and> stringify_conversations P (conversations s) = stored_text
       \<and> save_effect P s None = Some stored_text
       \<and> parse_and_revive P stored_text = Inr (conversations s)
       \<and> load_effect P 2000 ''q8w7e6r5t'' (Some stored_text) initial_state = (Completed, s, []))"
proof -
  define stamp where "stamp = ''1970-01-01T00:00:01.000Z''"
  define stored_text where "stored_text = ''[{\"id\":\"c1\",\"title\":\"Hi\",\"preview\":\"ok\",\"timestamp\":\"1970-01-01T00:00:01.000Z\",\"messages\":[{\"id\":\"m1\",\"role\":\"agent\",\"content\":\"ok\",\"timestamp\":\"1970-01-01T00:00:01.000Z\",\"confidence\":0.9,\"sources\":[\"faq\"],\"suggested_followup\":[\"Pricing?\"]}]}]''"
  define P where "P = listed_platform
              [(stored_text,
                JArr [JObj [(''id'', JStr ''c1''), (''title'', JStr ''Hi''),
                            (''preview'', JStr ''ok''), (''timestamp'', JStr stamp),
                            (''messages'',
                             JArr [JObj [(''id'', JStr ''m1''), (''role'', JStr ''agent''),
                                         (''content'', JStr ''ok''), (''timestamp'', JStr stamp),
                                         (''confidence'', JNum (Finite (9 / 10))),
                                         (''sources'', JArr [JStr ''faq'']),
                                         (''suggested_followup'', JArr [JStr ''Pricing?''])]])]])]
              [(1000, stamp)] []"
  define c where "c = \<lparr>conv_id = ''c1'', title = ''Hi'', preview = ''ok'',
              conv_timestamp = Date 1000,
              messages = [\<lparr>msg_id = ''m1'', role = Agent, content = ''ok'',
                           msg_timestamp = Date 1000, confidence = Some (Finite (9 / 10)),
                           sources = Some [JStr ''faq''],
                           suggested_followup = Some [''Pricing?'']\<rparr>]\<rparr>"
  define s where "s = initial_state\<lparr>conversations := [c], activeConversationId := ''c1''\<rparr>"
  have convs: "conversations s = [c]"
    by (simp add: s_def)
  have h1: "conversations s \<noteq> []"
    by (simp add: convs)
  have h2: "\<forall>c\<in>set (conversations s). conversation_storable P c"
    by (simp add: convs c_def conversation_storable_def message_storable_def reads_back_def
          finite_number_def P_def listed_platform_def)
  have tj: "to_json P (JArr (map value_of_conversation (conversations s))) =
      JArr [JObj [(''id'', JStr ''c1''), (''title'', JStr ''Hi''),
                  (''preview'', JStr ''ok''), (''timestamp'', JStr stamp),
                  (''messages'',
                   JArr [JObj [(''id'', JStr ''m1''), (''role'', JStr ''agent''),
                               (''content'', JStr ''ok''), (''timestamp'', JStr stamp),
                               (''confidence'', JNum (Finite (9 / 10))),
                               (''sources'', JArr [JStr ''faq'']),
                               (''suggested_followup'', JArr [JStr ''Pricing?''])]])]]"
    by (simp add: convs c_def P_def listed_platform_def value_of_conversation_def
          value_of_message_def toJSON_date_def json_number_def role_name_def)
  have tx: "stringify_conversations P (conversations s) = stored_text"
    unfolding stringify_conversations_def tj by (simp add: P_def listed_platform_def)
  have h3: "json_parse P (stringify_conversations P (conversations s)) =
            Some (to_json P (JArr (map value_of_conversation (conversations s))))"
    unfolding tx tj by (simp add: P_def listed_platform_def)
  have h4: "stringify_conversations P (conversations s) \<noteq> ''''"
    unfolding tx by (simp add: stored_text_def)
  note main = stored_conversations_are_read_back[OF h1 h2 h3 h4, of None 2000 "''q8w7e6r5t''"
      initial_state]
  have s_eq: "initial_state\<lparr>conversations := conversations s,
            activeConversationId := conv_id (hd (conversations s))\<rparr> = s"
    by (simp add: convs s_def c_def)
  have e5: "save_effect P s None = Some stored_text"
    using main tx by simp
  have e6: "parse_and_revive P stored_text = Inr (conversations s)"
    using main tx by simp
  have e7: "load_effect P 2000 ''q8w7e6r5t'' (Some stored_text) initial_state = (Completed, s, [])"
    using main unfolding tx s_eq e5 by simp
  have h2': "list_all (conversation_storable P) (conversations s)"
    using h2 by (simp add: list_all_iff)
  show ?thesis
    using h1 h2' h3 tx e5 e6 e7
    unfolding Let_def s_def[symmetric] c_def[symmetric] stamp_def[symmetric]
      stored_text_def[symmetric] P_def[symmetric]
    by blast
qed

end
